theory Spec2Isabelle
  imports Main "HOL-Library.Word"
begin

section \<open>Data model\<close>

text \<open>
  The embedding follows \<^verbatim>\<open>builtin/logical/ssh/path_creds_create.go\<close>. Go errors are
  strings (their messages). A \<^verbatim>\<open>time.Duration\<close> is a number of nanoseconds; the handler
  computes only \<^verbatim>\<open>10 * time.Minute\<close> and \<^verbatim>\<open>2 * time.Minute\<close>, far below the range of
  its 64 bits, so it is an \<open>int\<close>. A \<^verbatim>\<open>map[string]interface{}\<close> literal is an
  association list in the order of the literal.
\<close>

type_synonym error = string
type_synonym duration = int
type_synonym IP = "8 word list"

definition time_Minute :: duration where
  "time_Minute = 60 * 1000000000"

text \<open>\<^verbatim>\<open>type sshOTP struct { Username string; IP string }\<close>\<close>

record sshOTP =
  Username :: string
  IP :: string

text \<open>
  Modelled from the spec: the role record (\<^verbatim>\<open>sshRole\<close>) is declared outside the file;
  these are the fields the handler reads, as section 3 of the specification lists them.
\<close>

record sshRole =
  KeyType :: string
  DefaultUser :: string
  CIDRList :: string
  AdminUser :: string
  KeyName :: string
  Port :: int
  KeyBits :: int
  InstallScript :: string

text \<open>
  Modelled from the spec: the two key types of a role, \<^verbatim>\<open>otp\<close> and \<^verbatim>\<open>dynamic\<close>
  (the constants \<^verbatim>\<open>KeyTypeOTP\<close> and \<^verbatim>\<open>KeyTypeDynamic\<close> are declared outside the file).
\<close>

definition KeyTypeOTP :: string where
  "KeyTypeOTP = ''otp''"

definition KeyTypeDynamic :: string where
  "KeyTypeDynamic = ''dynamic''"

text \<open>
  Modelled from the spec: the lease policy (\<^verbatim>\<open>configLease\<close>) with its duration and its
  maximum; the handler reads \<^verbatim>\<open>lease.Lease\<close> and \<^verbatim>\<open>lease.LeaseMax\<close>.
\<close>

record configLease =
  Lease :: duration
  LeaseMax :: duration

datatype jval = JString string | JInt int

type_synonym jmap = "(string \<times> jval) list"

datatype secret_type = SecretOTPType | SecretDynamicKeyType

text \<open>
  Modelled from the spec: the secret object of a success response (\<^verbatim>\<open>logical.Secret\<close>,
  declared outside the file), with the internal metadata the handler hands over and the
  two lease fields it assigns.
\<close>

record Secret =
  SecretKind :: secret_type
  InternalData :: jmap
  SecretLease :: duration
  LeaseGracePeriod :: duration

text \<open>
  Modelled from the spec: a response (\<^verbatim>\<open>*logical.Response\<close>, declared outside the
  file) is either \<^verbatim>\<open>logical.ErrorResponse(text)\<close>, the structured user error, or a
  response with public data and a secret.
\<close>

datatype Response = ErrorResponse string | SecretResponse jmap Secret

section \<open>The collaborators\<close>

text \<open>
  Modelled from the spec: the persistent storage is a key-value store, read and written
  by string key, whose calls can return an error. Every call that leaves the handler is
  recorded, with its outcome, in a trace.
\<close>

datatype event =
    RoleLookup string
  | LeaseLookup
  | StorageGet string
  | StoragePut string string
  | UUIDGen string
  | RSAGen int
  | ScpUpload string string int string string string
  | InstallKey string string string string int string bool

record world =
  kv :: "(string \<times> string) list"
  trace :: "(event \<times> error option) list"

text \<open>
  The collaborators outside the file are parameters. Those that are random or that can
  fail see the world (the storage and the history), so that the same call can succeed
  once and fail later; none of them can change the world.
  \<^item> \<open>fault\<close>: whether a call of the storage (\<^verbatim>\<open>Get\<close>, \<^verbatim>\<open>Put\<close>) or of the
    target (\<^verbatim>\<open>scpUpload\<close>, \<^verbatim>\<open>installPublicKeyInTarget\<close>) fails now, and with which error;
  \<^item> \<open>role_of\<close>: the result of \<^verbatim>\<open>b.getRole\<close>, an error or the role (nil when absent);
  \<^item> \<open>lease_of\<close>: the result of \<^verbatim>\<open>b.Lease\<close>, the pair of a policy (or nil) and an
    error (or nil);
  \<^item> \<open>uuid_GenerateUUID\<close>, \<open>salt_SaltID\<close>: \<^verbatim>\<open>uuid.GenerateUUID\<close> and \<^verbatim>\<open>b.salt.SaltID\<close>;
  \<^item> \<open>net_ParseIP\<close>, \<open>IP_String\<close>: \<^verbatim>\<open>net.ParseIP\<close> (nil when the string is no
    address) and \<^verbatim>\<open>IP.String\<close>;
  \<^item> \<open>cidrContainsIP\<close>: the membership test of the package, an error for a malformed list;
  \<^item> \<open>rsa_keys\<close>: the result of \<^verbatim>\<open>generateRSAKeys\<close>, an error or the public and the
    private key;
  \<^item> \<open>json_Marshal\<close>, \<open>DecodeJSON_hostKey\<close>: the JSON encoding of an \<^verbatim>\<open>sshOTP\<close>, and the
    decoding of a stored host key to its \<^verbatim>\<open>Key\<close> field;
  \<^item> \<open>DefaultDuration\<close>, \<open>DefaultGracePeriod\<close>: the lease fields a secret type starts with.
\<close>

record env =
  fault :: "world \<Rightarrow> event \<Rightarrow> error option"
  role_of :: "world \<Rightarrow> string \<Rightarrow> error + sshRole option"
  lease_of :: "world \<Rightarrow> configLease option \<times> error option"
  uuid_GenerateUUID :: "world \<Rightarrow> string"
  salt_SaltID :: "string \<Rightarrow> string"
  net_ParseIP :: "string \<Rightarrow> IP option"
  IP_String :: "IP \<Rightarrow> string"
  cidrContainsIP :: "string \<Rightarrow> string \<Rightarrow> error + bool"
  rsa_keys :: "world \<Rightarrow> int \<Rightarrow> error + (string \<times> string)"
  json_Marshal :: "sshOTP \<Rightarrow> error + string"
  DecodeJSON_hostKey :: "string \<Rightarrow> error + string"
  DefaultDuration :: "secret_type \<Rightarrow> duration"
  DefaultGracePeriod :: "secret_type \<Rightarrow> duration"

definition record_call :: "event \<Rightarrow> error option \<Rightarrow> world \<Rightarrow> world" where
  "record_call ev r w = w\<lparr>trace := trace w @ [(ev, r)]\<rparr>"

text \<open>\<^verbatim>\<open>req.Storage.Get(key)\<close>: an error, or the entry under the key (nil when absent).\<close>

definition Storage_Get :: "env \<Rightarrow> string \<Rightarrow> world \<Rightarrow> (error + string option) \<times> world" where
  "Storage_Get E key w =
     (case fault E w (StorageGet key) of
        Some e \<Rightarrow> (Inl e, record_call (StorageGet key) (Some e) w)
      | None \<Rightarrow> (Inr (map_of (kv w) key), record_call (StorageGet key) None w))"

fun put_entry :: "string \<Rightarrow> string \<Rightarrow> (string \<times> string) list \<Rightarrow> (string \<times> string) list" where
  "put_entry k v [] = [(k, v)]"
| "put_entry k v ((k', v') # rest) =
     (if k' = k then (k, v) # rest else (k', v') # put_entry k v rest)"

text \<open>\<^verbatim>\<open>req.Storage.Put(entry)\<close>: an error and no change, or the entry is stored.\<close>

definition Storage_Put :: "env \<Rightarrow> string \<times> string \<Rightarrow> world \<Rightarrow> error option \<times> world" where
  "Storage_Put E entry w =
     (case fault E w (StoragePut (fst entry) (snd entry)) of
        Some e \<Rightarrow> (Some e, record_call (StoragePut (fst entry) (snd entry)) (Some e) w)
      | None \<Rightarrow>
          (None, record_call (StoragePut (fst entry) (snd entry)) None
                   (w\<lparr>kv := put_entry (fst entry) (snd entry) (kv w)\<rparr>)))"

text \<open>\<^verbatim>\<open>logical.StorageEntryJSON(key, value)\<close>: the entry with the value's JSON encoding.\<close>

definition StorageEntryJSON :: "env \<Rightarrow> string \<Rightarrow> sshOTP \<Rightarrow> error + (string \<times> string)" where
  "StorageEntryJSON E key v =
     (case json_Marshal E v of Inl e \<Rightarrow> Inl e | Inr bytes \<Rightarrow> Inr (key, bytes))"

text \<open>\<^verbatim>\<open>b.getRole(req.Storage, roleName)\<close>, a read of the storage.\<close>

definition getRole :: "env \<Rightarrow> string \<Rightarrow> world \<Rightarrow> (error + sshRole option) \<times> world" where
  "getRole E roleName w =
     (case role_of E w roleName of
        Inl e \<Rightarrow> (Inl e, record_call (RoleLookup roleName) (Some e) w)
      | Inr r \<Rightarrow> (Inr r, record_call (RoleLookup roleName) None w))"

text \<open>\<^verbatim>\<open>b.Lease(req.Storage)\<close>, a read of the storage; Go returns the pair as it is.\<close>

definition b_Lease :: "env \<Rightarrow> world \<Rightarrow> (configLease option \<times> error option) \<times> world" where
  "b_Lease E w = (lease_of E w, record_call LeaseLookup (snd (lease_of E w)) w)"

definition generateRSAKeys :: "env \<Rightarrow> int \<Rightarrow> world \<Rightarrow> (error + (string \<times> string)) \<times> world" where
  "generateRSAKeys E bits w =
     (case rsa_keys E w bits of
        Inl e \<Rightarrow> (Inl e, record_call (RSAGen bits) (Some e) w)
      | Inr ks \<Rightarrow> (Inr ks, record_call (RSAGen bits) None w))"

definition scpUpload ::
  "env \<Rightarrow> string \<Rightarrow> string \<Rightarrow> int \<Rightarrow> string \<Rightarrow> string \<Rightarrow> string \<Rightarrow> world \<Rightarrow> error option \<times> world" where
  "scpUpload E username ip port hostKey fileName fileContent w =
     (let ev = ScpUpload username ip port hostKey fileName fileContent
      in (fault E w ev, record_call ev (fault E w ev) w))"

definition installPublicKeyInTarget ::
  "env \<Rightarrow> string \<Rightarrow> string \<Rightarrow> string \<Rightarrow> string \<Rightarrow> int \<Rightarrow> string \<Rightarrow> bool \<Rightarrow> world
     \<Rightarrow> error option \<times> world" where
  "installPublicKeyInTarget E adminUser publicKeyFileName username ip port hostKey install w =
     (let ev = InstallKey adminUser publicKeyFileName username ip port hostKey install
      in (fault E w ev, record_call ev (fault E w ev) w))"

section \<open>Credential generation\<close>

text \<open>
  \<^verbatim>\<open>GenerateSaltedOTP\<close>: a fresh UUID and its salted value.
\<close>

definition GenerateSaltedOTP :: "env \<Rightarrow> world \<Rightarrow> (string \<times> string) \<times> world" where
  "GenerateSaltedOTP E w =
     (let str = uuid_GenerateUUID E w
      in ((str, salt_SaltID E str), record_call (UUIDGen str) None w))"

text \<open>
  The loop of \<^verbatim>\<open>GenerateOTPCredential\<close>, entered with the current \<^verbatim>\<open>otp, otpSalted\<close>
  and the result \<^verbatim>\<open>entry, err\<close> of the last read:
  \<^verbatim>\<open>for err == nil && entry != nil { ...; if err != nil { return "", err } }\<close>.
  The loop has no bound, so the function is partial: \<open>None\<close> is a loop that never ends.
\<close>

partial_function (option) free_key_loop ::
  "env \<Rightarrow> string \<times> string \<Rightarrow> error + string option \<Rightarrow> world
     \<Rightarrow> ((error + string \<times> string) \<times> world) option" where
  "free_key_loop E cur r w =
     (case r of
        Inr (Some entry) \<Rightarrow>
          (case GenerateSaltedOTP E w of
             (cur', w1) \<Rightarrow>
               (case Storage_Get E (''otp/'' @ snd cur') w1 of
                  (Inl e, w2) \<Rightarrow> Some (Inl e, w2)
                | (Inr entry', w2) \<Rightarrow> free_key_loop E cur' (Inr entry') w2))
      | _ \<Rightarrow> Some (Inr cur, w))"

declare free_key_loop.simps [code]

definition GenerateOTPCredential ::
  "env \<Rightarrow> string \<Rightarrow> string \<Rightarrow> world \<Rightarrow> ((error + string) \<times> world) option" where
  "GenerateOTPCredential E username ip w =
     (case GenerateSaltedOTP E w of
        (cur, w1) \<Rightarrow>
          (case Storage_Get E (''otp/'' @ snd cur) w1 of
             (r, w2) \<Rightarrow>
               (case free_key_loop E cur r w2 of
                  None \<Rightarrow> None
                | Some (Inl e, w3) \<Rightarrow> Some (Inl e, w3)
                | Some (Inr (otp, otpSalted), w3) \<Rightarrow>
                    (case StorageEntryJSON E (''otp/'' @ otpSalted)
                            \<lparr>Username = username, IP = ip\<rparr> of
                       Inl e \<Rightarrow> Some (Inl e, w3)
                     | Inr entry \<Rightarrow>
                         (case Storage_Put E entry w3 of
                            (Some e, w4) \<Rightarrow> Some (Inl e, w4)
                          | (None, w4) \<Rightarrow> Some (Inr otp, w4))))))"

text \<open>
  \<^verbatim>\<open>GenerateDynamicCredential\<close>: the host key is read, a key pair is generated, the
  public key and the install script are uploaded, and the key is installed. The second
  format of the source has one verb for two arguments, so Go appends the unused nil error
  as \<^verbatim>\<open>%!(EXTRA <nil>)\<close>.
\<close>

definition quote :: string where
  "quote = [CHR 0x27]"

definition GenerateDynamicCredential ::
  "env \<Rightarrow> sshRole \<Rightarrow> string \<Rightarrow> string \<Rightarrow> world \<Rightarrow> (error + string \<times> string) \<times> world" where
  "GenerateDynamicCredential E role username ip w =
     (case Storage_Get E (''keys/'' @ KeyName role) w of
        (Inl e, w1) \<Rightarrow>
          (Inl (''key '' @ quote @ KeyName role @ quote @ '' not found error:'' @ e), w1)
      | (Inr None, w1) \<Rightarrow>
          (Inl (''key '' @ quote @ KeyName role @ quote @ '' not found%!(EXTRA <nil>)''), w1)
      | (Inr (Some keyEntry), w1) \<Rightarrow>
          (case DecodeJSON_hostKey E keyEntry of
             Inl e \<Rightarrow> (Inl (''error reading the host key: '' @ e), w1)
           | Inr hostKey \<Rightarrow>
               (case generateRSAKeys E (KeyBits role) w1 of
                  (Inl e, w2) \<Rightarrow> (Inl (''error generating key: '' @ e), w2)
                | (Inr (dynamicPublicKey, dynamicPrivateKey), w2) \<Rightarrow>
                    (case GenerateSaltedOTP E w2 of
                       ((_, publicKeyFileName), w3) \<Rightarrow>
                         (case scpUpload E (AdminUser role) ip (Port role) hostKey
                                 publicKeyFileName dynamicPublicKey w3 of
                            (Some e, w4) \<Rightarrow> (Inl (''error uploading public key: '' @ e), w4)
                          | (None, w4) \<Rightarrow>
                              (case scpUpload E (AdminUser role) ip (Port role) hostKey
                                      (publicKeyFileName @ ''.sh'') (InstallScript role) w4 of
                                 (Some e, w5) \<Rightarrow>
                                   (Inl (''error uploading install script: '' @ e), w5)
                               | (None, w5) \<Rightarrow>
                                   (case installPublicKeyInTarget E (AdminUser role)
                                           publicKeyFileName username ip (Port role) hostKey
                                           True w5 of
                                      (Some e, w6) \<Rightarrow>
                                        (Inl ''error adding public key to authorized_keys file in target'', w6)
                                    | (None, w6) \<Rightarrow>
                                        (Inr (dynamicPublicKey, dynamicPrivateKey), w6))))))))"

section \<open>The handler\<close>

text \<open>
  Modelled from the spec: \<^verbatim>\<open>b.Secret(t).Response(data, internal)\<close> of the framework is
  the response carrying the public data, and a secret of type \<open>t\<close> with the internal data
  and the lease fields of the secret type.
\<close>

definition Secret_Response :: "env \<Rightarrow> secret_type \<Rightarrow> jmap \<Rightarrow> jmap \<Rightarrow> jmap \<times> Secret" where
  "Secret_Response E t data internal =
     (data, \<lparr>SecretKind = t, InternalData = internal,
             SecretLease = DefaultDuration E t, LeaseGracePeriod = DefaultGracePeriod E t\<rparr>)"

text \<open>The fields of the request: \<^verbatim>\<open>d.Get("role")\<close>, \<^verbatim>\<open>d.Get("username")\<close>, \<^verbatim>\<open>d.Get("ip")\<close>.\<close>

record FieldData =
  f_role :: string
  f_username :: string
  f_ip :: string

text \<open>
  \<^verbatim>\<open>pathCredsCreateWrite\<close> up to the end of the branch on the key type: the handler has
  returned (an internal error on the left, a response on the right), or it goes on with
  \<^verbatim>\<open>result\<close> assigned.
\<close>

datatype progress = Return "error + Response" | Continue "jmap \<times> Secret"

definition issue_result ::
  "env \<Rightarrow> FieldData \<Rightarrow> world \<Rightarrow> (progress \<times> world) option" where
  "issue_result E d w =
     (let roleName = f_role d in
      if roleName = [] then Some (Return (Inr (ErrorResponse ''Missing role'')), w)
      else
        let username = f_username d; ipRaw = f_ip d in
        if ipRaw = [] then Some (Return (Inr (ErrorResponse ''Missing ip'')), w)
        else
          (case getRole E roleName w of
             (Inl e, w1) \<Rightarrow> Some (Return (Inl (''error retrieving role: '' @ e)), w1)
           | (Inr None, w1) \<Rightarrow>
               Some (Return (Inr (ErrorResponse
                       (''Role '' @ quote @ roleName @ quote @ '' not found''))), w1)
           | (Inr (Some role), w1) \<Rightarrow>
               if username = [] \<and> DefaultUser role = []
               then Some (Return (Inr (ErrorResponse
                       (''No default username registered. Use '' @ quote @ ''username'' @ quote
                          @ '' option''))), w1)
               else
                 let username = (if username = [] then DefaultUser role else username) in
                 (case net_ParseIP E ipRaw of
                    None \<Rightarrow>
                      Some (Return (Inr (ErrorResponse
                              (''Invalid IP '' @ quote @ ipRaw @ quote))), w1)
                  | Some ipAddr \<Rightarrow>
                      let ip = IP_String E ipAddr in
                      (case cidrContainsIP E ip (CIDRList role) of
                         Inl e \<Rightarrow>
                           Some (Return (Inr (ErrorResponse (''Error validating IP: '' @ e))), w1)
                       | Inr ipMatched \<Rightarrow>
                           if \<not> ipMatched
                           then Some (Return (Inr (ErrorResponse
                                   (''IP['' @ ip @ ''] does not belong to role['' @ roleName
                                      @ '']''))), w1)
                           else if KeyType role = KeyTypeOTP then
                             (case GenerateOTPCredential E username ip w1 of
                                None \<Rightarrow> None
                              | Some (Inl e, w2) \<Rightarrow> Some (Return (Inl e), w2)
                              | Some (Inr otp, w2) \<Rightarrow>
                                  Some (Continue
                                    (Secret_Response E SecretOTPType
                                       [(''key_type'', JString (KeyType role)),
                                        (''key'', JString otp)]
                                       [(''otp'', JString otp)]), w2))
                           else if KeyType role = KeyTypeDynamic then
                             (case GenerateDynamicCredential E role username ip w1 of
                                (Inl e, w2) \<Rightarrow> Some (Return (Inl e), w2)
                              | (Inr (dynamicPublicKey, dynamicPrivateKey), w2) \<Rightarrow>
                                  Some (Continue
                                    (Secret_Response E SecretDynamicKeyType
                                       [(''key'', JString dynamicPrivateKey),
                                        (''key_type'', JString (KeyType role))]
                                       [(''admin_user'', JString (AdminUser role)),
                                        (''username'', JString username),
                                        (''ip'', JString ip),
                                        (''host_key_name'', JString (KeyName role)),
                                        (''dynamic_public_key'', JString dynamicPublicKey),
                                        (''port'', JInt (Port role)),
                                        (''install_script'', JString (InstallScript role))]), w2))
                           else Some (Return (Inl ''key type unknown''), w1)))))"

text \<open>
  The end of \<^verbatim>\<open>pathCredsCreateWrite\<close>, where both branches meet: the lease lookup,
  whose error is dropped (\<^verbatim>\<open>lease, _ := b.Lease(req.Storage)\<close>), and the two tests on it.
\<close>

definition apply_lease :: "env \<Rightarrow> jmap \<times> Secret \<Rightarrow> world \<Rightarrow> (error + Response) \<times> world" where
  "apply_lease E result w =
     (case b_Lease E w of
        ((lease, _), w') \<Rightarrow>
          (let secret1 = (if lease \<noteq> None
                          then (snd result)\<lparr>SecretLease := Lease (the lease),
                                             LeaseGracePeriod := LeaseMax (the lease)\<rparr>
                          else snd result);
               secret2 = (if lease = None
                          then secret1\<lparr>SecretLease := 10 * time_Minute,
                                       LeaseGracePeriod := 2 * time_Minute\<rparr>
                          else secret1)
           in (Inr (SecretResponse (fst result) secret2), w')))"

definition pathCredsCreateWrite ::
  "env \<Rightarrow> FieldData \<Rightarrow> world \<Rightarrow> ((error + Response) \<times> world) option" where
  "pathCredsCreateWrite E d w =
     (case issue_result E d w of
        None \<Rightarrow> None
      | Some (Return r, w1) \<Rightarrow> Some (r, w1)
      | Some (Continue result, w2) \<Rightarrow> Some (apply_lease E result w2))"

section \<open>Observations on the trace\<close>

fun is_put :: "event \<Rightarrow> bool" where
  "is_put (StoragePut _ _) = True"
| "is_put _ = False"

fun is_storage :: "event \<Rightarrow> bool" where
  "is_storage (RoleLookup _) = True"
| "is_storage LeaseLookup = True"
| "is_storage (StorageGet _) = True"
| "is_storage (StoragePut _ _) = True"
| "is_storage _ = False"

fun is_upload :: "event \<Rightarrow> bool" where
  "is_upload (ScpUpload _ _ _ _ _ _) = True"
| "is_upload _ = False"

fun is_install :: "event \<Rightarrow> bool" where
  "is_install (InstallKey _ _ _ _ _ _ _) = True"
| "is_install _ = False"

text \<open>The calls of the search for a free key: a fresh identifier, a read.\<close>

fun is_probe :: "event \<Rightarrow> bool" where
  "is_probe (UUIDGen _) = True"
| "is_probe (StorageGet _) = True"
| "is_probe _ = False"

text \<open>The target address of a remote session.\<close>

fun remote_ip :: "event \<Rightarrow> string option" where
  "remote_ip (ScpUpload _ ip _ _ _ _) = Some ip"
| "remote_ip (InstallKey _ _ _ ip _ _ _) = Some ip"
| "remote_ip _ = None"

fun put_value :: "event \<Rightarrow> string option" where
  "put_value (StoragePut _ v) = Some v"
| "put_value _ = None"

section \<open>A concrete configuration\<close>

text \<open>
  The scenario of section 8 of the specification: role \<^verbatim>\<open>web\<close> with CIDR
  \<^verbatim>\<open>10.0.0.0/24\<close>, key type \<^verbatim>\<open>otp\<close> and default user \<^verbatim>\<open>deploy\<close>; beside it a
  dynamic role, a role with no default user and a role with a corrupt key type. The
  address parser is the fragment of \<^verbatim>\<open>net.ParseIP\<close> on the addresses used here.
\<close>

definition role_web :: sshRole where
  "role_web = \<lparr>KeyType = ''otp'', DefaultUser = ''deploy'', CIDRList = ''10.0.0.0/24'',
                AdminUser = [], KeyName = [], Port = 22, KeyBits = 0, InstallScript = []\<rparr>"

definition role_db :: sshRole where
  "role_db = \<lparr>KeyType = ''dynamic'', DefaultUser = ''postgres'', CIDRList = ''10.0.0.0/24'',
               AdminUser = ''admin'', KeyName = ''hostkey'', Port = 22, KeyBits = 2048,
               InstallScript = ''#!/bin/sh''\<rparr>"

definition role_anon :: sshRole where
  "role_anon = role_web\<lparr>DefaultUser := []\<rparr>"

definition role_corrupt :: sshRole where
  "role_corrupt = role_web\<lparr>KeyType := ''ca''\<rparr>"

definition demo_roles :: "string \<Rightarrow> error + sshRole option" where
  "demo_roles n =
     (if n = ''web'' then Inr (Some role_web)
      else if n = ''db'' then Inr (Some role_db)
      else if n = ''anon'' then Inr (Some role_anon)
      else if n = ''corrupt'' then Inr (Some role_corrupt)
      else Inr None)"

definition demo_ParseIP :: "string \<Rightarrow> IP option" where
  "demo_ParseIP s =
     (if s = ''10.0.0.5'' \<or> s = ''::ffff:10.0.0.5'' then Some [10, 0, 0, 5]
      else if s = ''192.168.1.1'' then Some [192, 168, 1, 1]
      else None)"

definition demo_String :: "IP \<Rightarrow> string" where
  "demo_String a =
     (if a = [10, 0, 0, 5] then ''10.0.0.5''
      else if a = [192, 168, 1, 1] then ''192.168.1.1''
      else ''?'')"

definition demo_cidr :: "string \<Rightarrow> string \<Rightarrow> error + bool" where
  "demo_cidr ip cidrs =
     (if cidrs = ''10.0.0.0/24'' then Inr (ip = ''10.0.0.5'')
      else Inl (''invalid CIDR address: '' @ cidrs))"

text \<open>The n-th identifier is \<^verbatim>\<open>u\<close> followed by as many \<^verbatim>\<open>1\<close> as UUIDs were drawn before.\<close>

definition demo_uuid :: "world \<Rightarrow> string" where
  "demo_uuid w = CHR ''u'' # map (\<lambda>_. CHR ''1'') (filter (\<lambda>c. case fst c of UUIDGen _ \<Rightarrow> True | _ \<Rightarrow> False) (trace w))"

definition demo_Marshal :: "sshOTP \<Rightarrow> error + string" where
  "demo_Marshal v = Inr (''{username:'' @ Username v @ '',ip:'' @ IP v @ ''}'')"

definition demo_env :: env where
  "demo_env =
     \<lparr>fault = (\<lambda>w ev. None),
      role_of = (\<lambda>w. demo_roles),
      lease_of = (\<lambda>w. (None, None)),
      uuid_GenerateUUID = demo_uuid,
      salt_SaltID = (\<lambda>s. ''salted-'' @ s),
      net_ParseIP = demo_ParseIP,
      IP_String = demo_String,
      cidrContainsIP = demo_cidr,
      rsa_keys = (\<lambda>w bits. Inr (''ssh-rsa AAAA'', ''PRIVATE KEY'')),
      json_Marshal = demo_Marshal,
      DecodeJSON_hostKey = Inr,
      DefaultDuration = (\<lambda>t. 0),
      DefaultGracePeriod = (\<lambda>t. 0)\<rparr>"

definition w0 :: world where
  "w0 = \<lparr>kv = [(''keys/hostkey'', ''HOSTKEY'')], trace = []\<rparr>"

text \<open>A storage in which the key of the first identifier is taken.\<close>

definition w_taken :: world where
  "w_taken = \<lparr>kv = [(''otp/salted-u'', ''{username:root,ip:10.0.0.9}'')], trace = []\<rparr>"

text \<open>A storage whose first read fails, and whose later calls succeed.\<close>

definition first_read_fails :: "world \<Rightarrow> event \<Rightarrow> error option" where
  "first_read_fails w ev =
     (case ev of
        StorageGet _ \<Rightarrow>
          (if list_all (\<lambda>c. case fst c of StorageGet _ \<Rightarrow> False | _ \<Rightarrow> True) (trace w)
           then Some ''storage unavailable'' else None)
      | _ \<Rightarrow> None)"

definition env_read_fails :: env where
  "env_read_fails = demo_env\<lparr>fault := first_read_fails\<rparr>"

text \<open>A storage whose first read succeeds, and whose later reads fail.\<close>

definition later_read_fails :: "world \<Rightarrow> event \<Rightarrow> error option" where
  "later_read_fails w ev =
     (case ev of
        StorageGet _ \<Rightarrow>
          (if list_all (\<lambda>c. case fst c of StorageGet _ \<Rightarrow> False | _ \<Rightarrow> True) (trace w)
           then None else Some ''storage unavailable'')
      | _ \<Rightarrow> None)"

definition env_later_read_fails :: env where
  "env_later_read_fails = demo_env\<lparr>fault := later_read_fails\<rparr>"

text \<open>A target that refuses the first upload.\<close>

definition first_upload_fails :: "world \<Rightarrow> event \<Rightarrow> error option" where
  "first_upload_fails w ev =
     (if is_upload ev \<and> list_all (\<lambda>c. \<not> is_upload (fst c)) (trace w)
      then Some ''connection refused'' else None)"

definition env_upload_fails :: env where
  "env_upload_fails = demo_env\<lparr>fault := first_upload_fails\<rparr>"

text \<open>A lease lookup that fails, and one that finds a policy of 30 and 60 minutes.\<close>

definition env_lease_fails :: env where
  "env_lease_fails = demo_env\<lparr>lease_of := (\<lambda>w. (None, Some ''lease storage error''))\<rparr>"

definition env_lease_set :: env where
  "env_lease_set =
     demo_env\<lparr>lease_of := (\<lambda>w. (Some \<lparr>Lease = 30 * time_Minute, LeaseMax = 60 * time_Minute\<rparr>, None))\<rparr>"

section \<open>The search for a free key\<close>

lemmas prim_defs = Storage_Get_def Storage_Put_def StorageEntryJSON_def getRole_def b_Lease_def
  generateRSAKeys_def scpUpload_def installPublicKeyInTarget_def GenerateSaltedOTP_def
  record_call_def

text \<open>
  What a run of the loop that ends has done: the storage is as before, the calls are
  fresh identifiers and reads; a run that returns an error ends on the failed read, and a
  run that returns a pair either returns the pair it was entered with (the loop body did
  not run) or a pair whose key the last read, which succeeded, found free.
\<close>

lemma probe_not_put: "is_probe ev \<Longrightarrow> \<not> is_put ev"
  by (cases ev) simp_all

lemma free_key_loop_effect:
  assumes "free_key_loop E cur r w = Some y"
  shows "kv (snd y) = kv w \<and>
         (\<exists>evs. trace (snd y) = trace w @ evs \<and> list_all (\<lambda>c. is_probe (fst c)) evs \<and>
            (case fst y of
               Inl e \<Rightarrow> \<exists>k pre. evs = pre @ [(StorageGet k, Some e)]
             | Inr new \<Rightarrow>
                 (new = cur \<and> evs = [] \<and> (\<forall>x. r \<noteq> Inr (Some x))) \<or>
                 (snd new = salt_SaltID E (fst new) \<and>
                  map_of (kv w) (''otp/'' @ snd new) = None \<and>
                  (\<exists>pre. evs = pre @ [(StorageGet (''otp/'' @ snd new), None)]))))"
  using assms
proof (induction E cur r w y rule: free_key_loop.raw_induct[rotated 1, consumes 1, case_names step])
  case (step f E cur r w y)
  show ?case
  proof (cases r)
    case (Inl e)
    with step(2) show ?thesis by auto
  next
    case (Inr ent)
    show ?thesis
    proof (cases ent)
      case None
      with Inr step(2) show ?thesis by auto
    next
      case (Some entry)
      obtain cur' w1 where g: "GenerateSaltedOTP E w = (cur', w1)" by (cases "GenerateSaltedOTP E w")
      obtain r' w2 where s: "Storage_Get E (''otp/'' @ snd cur') w1 = (r', w2)"
        by (cases "Storage_Get E (''otp/'' @ snd cur') w1")
      have w1: "kv w1 = kv w" "trace w1 = trace w @ [(UUIDGen (fst cur'), None)]"
        "snd cur' = salt_SaltID E (fst cur')"
        using g by (auto simp: GenerateSaltedOTP_def record_call_def Let_def)
      have w2: "kv w2 = kv w1"
        "trace w2 = trace w1 @ [(StorageGet (''otp/'' @ snd cur'), case r' of Inl e \<Rightarrow> Some e | Inr _ \<Rightarrow> None)]"
        "\<And>x. r' = Inr x \<Longrightarrow> x = map_of (kv w1) (''otp/'' @ snd cur')"
        using s by (auto simp: Storage_Get_def record_call_def split: option.splits)
      show ?thesis
      proof (cases r')
        case (Inl e)
        with step(2) Inr Some g s have "y = (Inl e, w2)" by simp
        then show ?thesis using w1 w2 Inl by simp
      next
        case (Inr entry')
        with step(2) \<open>r = Inr ent\<close> Some g s have rec: "f E cur' (Inr entry') w2 = Some y" by simp
        from step(1)[OF rec] obtain evs where
          A: "kv (snd y) = kv w2" "trace (snd y) = trace w2 @ evs"
             "list_all (\<lambda>c. is_probe (fst c)) evs" and
          C: "case fst y of
                Inl e \<Rightarrow> \<exists>k pre. evs = pre @ [(StorageGet k, Some e)]
              | Inr new \<Rightarrow>
                  (new = cur' \<and> evs = [] \<and> (\<forall>x. Inr entry' \<noteq> (Inr (Some x) :: error + string option))) \<or>
                  (snd new = salt_SaltID E (fst new) \<and>
                   map_of (kv w2) (''otp/'' @ snd new) = None \<and>
                   (\<exists>pre. evs = pre @ [(StorageGet (''otp/'' @ snd new), None)]))"
          by blast
        let ?two = "[(UUIDGen (fst cur'), None), (StorageGet (''otp/'' @ snd cur'), None)]"
        have T: "trace (snd y) = trace w @ (?two @ evs)"
          using A(2) w1(2) w2(2) Inr by simp
        have P: "list_all (\<lambda>c. is_probe (fst c)) (?two @ evs)"
          using A(3) by simp
        have K: "kv (snd y) = kv w" using A(1) w1(1) w2(1) by simp
        have D: "case fst y of
                Inl e \<Rightarrow> \<exists>k pre. ?two @ evs = pre @ [(StorageGet k, Some e)]
              | Inr new \<Rightarrow>
                  (new = cur \<and> ?two @ evs = [] \<and> (\<forall>x. r \<noteq> Inr (Some x))) \<or>
                  (snd new = salt_SaltID E (fst new) \<and>
                   map_of (kv w) (''otp/'' @ snd new) = None \<and>
                   (\<exists>pre. ?two @ evs = pre @ [(StorageGet (''otp/'' @ snd new), None)]))"
        proof (cases "fst y")
          case (Inl e)
          with C obtain k pre where "evs = pre @ [(StorageGet k, Some e)]" by auto
          then have "?two @ evs = (?two @ pre) @ [(StorageGet k, Some e)]" by simp
          with Inl show ?thesis by (simp only: sum.case) blast
        next
          case (Inr new)
          from C Inr consider
            (fresh) "new = cur'" "evs = []" "entry' = None"
          | (later) pre where "snd new = salt_SaltID E (fst new)"
              "map_of (kv w2) (''otp/'' @ snd new) = None"
              "evs = pre @ [(StorageGet (''otp/'' @ snd new), None)]"
            by (cases entry') auto
          then have X: "snd new = salt_SaltID E (fst new) \<and>
                   map_of (kv w) (''otp/'' @ snd new) = None \<and>
                   (\<exists>pre. ?two @ evs = pre @ [(StorageGet (''otp/'' @ snd new), None)])"
          proof cases
            case fresh
            have "map_of (kv w1) (''otp/'' @ snd cur') = None"
              using w2(3)[OF \<open>r' = Inr entry'\<close>] fresh(3) by simp
            then show ?thesis using fresh w1 by simp
          next
            case later
            have "?two @ evs = (?two @ pre) @ [(StorageGet (''otp/'' @ snd new), None)]"
              using later(3) by simp
            then show ?thesis using later(1,2) w1(1) w2(1) by (metis)
          qed
          show ?thesis unfolding Inr sum.case using X by (rule disjI2)
        qed
        from K T P D show ?thesis by (simp only: snd_conv fst_conv) blast
      qed
    qed
  qed
qed

section \<open>One-time passwords\<close>

lemma map_of_put_entry: "map_of (put_entry k v kvs) = (map_of kvs)(k \<mapsto> v)"
  by (induction kvs) (auto simp: fun_eq_iff)

text \<open>
  A successful \<^verbatim>\<open>GenerateOTPCredential\<close>: the calls are the search for a free key,
  whose last read is of the key that is written, and then the one write.
\<close>

lemma GenerateOTPCredential_success:
  assumes "GenerateOTPCredential E U I w = Some (Inr otp, w')"
  shows "\<exists>bytes pre x.
           json_Marshal E \<lparr>Username = U, IP = I\<rparr> = Inr bytes \<and>
           kv w' = put_entry (''otp/'' @ salt_SaltID E otp) bytes (kv w) \<and>
           trace w' = trace w @ pre @
              [(StorageGet (''otp/'' @ salt_SaltID E otp), x),
               (StoragePut (''otp/'' @ salt_SaltID E otp) bytes, None)] \<and>
           list_all (\<lambda>c. is_probe (fst c)) pre \<and>
           (x = None \<longrightarrow> map_of (kv w) (''otp/'' @ salt_SaltID E otp) = None)"
proof -
  obtain cur w1 where g: "GenerateSaltedOTP E w = (cur, w1)" by (cases "GenerateSaltedOTP E w")
  obtain r w2 where s: "Storage_Get E (''otp/'' @ snd cur) w1 = (r, w2)"
    by (cases "Storage_Get E (''otp/'' @ snd cur) w1")
  have w1: "kv w1 = kv w" "trace w1 = trace w @ [(UUIDGen (fst cur), None)]"
    "snd cur = salt_SaltID E (fst cur)"
    using g by (auto simp: GenerateSaltedOTP_def record_call_def Let_def)
  have w2: "kv w2 = kv w1"
    "trace w2 = trace w1 @ [(StorageGet (''otp/'' @ snd cur), case r of Inl e \<Rightarrow> Some e | Inr _ \<Rightarrow> None)]"
    "\<And>x. r = Inr x \<Longrightarrow> x = map_of (kv w1) (''otp/'' @ snd cur)"
    using s by (auto simp: Storage_Get_def record_call_def split: option.splits)
  from assms g s obtain salted w3 bytes where
    l: "free_key_loop E cur r w2 = Some (Inr (otp, salted), w3)" and
    j: "json_Marshal E \<lparr>Username = U, IP = I\<rparr> = Inr bytes" and
    p: "Storage_Put E (''otp/'' @ salted, bytes) w3 = (None, w')"
    by (auto simp: GenerateOTPCredential_def StorageEntryJSON_def
             split: option.splits sum.splits prod.splits)
  have w': "kv w' = put_entry (''otp/'' @ salted) bytes (kv w3)"
    "trace w' = trace w3 @ [(StoragePut (''otp/'' @ salted) bytes, None)]"
    using p by (auto simp: Storage_Put_def record_call_def split: option.splits)
  from free_key_loop_effect[OF l] obtain evs where
    A: "kv w3 = kv w2" "trace w3 = trace w2 @ evs" "list_all (\<lambda>c. is_probe (fst c)) evs" and
    C: "((otp, salted) = cur \<and> evs = [] \<and> (\<forall>x. r \<noteq> Inr (Some x))) \<or>
        (salted = salt_SaltID E otp \<and> map_of (kv w2) (''otp/'' @ salted) = None \<and>
         (\<exists>pre. evs = pre @ [(StorageGet (''otp/'' @ salted), None)]))"
    by auto
  from C show ?thesis
  proof (elim disjE conjE exE)
    assume c: "(otp, salted) = cur" "evs = []" "\<forall>x. r \<noteq> Inr (Some x)"
    let ?x = "case r of Inl e \<Rightarrow> Some e | Inr _ \<Rightarrow> None"
    have sal: "salted = salt_SaltID E otp" using c(1) w1(3) by auto
    have free: "?x = None \<longrightarrow> map_of (kv w) (''otp/'' @ salt_SaltID E otp) = None"
      using c(3) w2(3) w1(1) c(1) sal by (cases r) auto
    have "trace w' = trace w @ [(UUIDGen (fst cur), None)] @
              [(StorageGet (''otp/'' @ salt_SaltID E otp), ?x),
               (StoragePut (''otp/'' @ salt_SaltID E otp) bytes, None)]"
      using w' A c w1 w2 sal by auto
    moreover have "kv w' = put_entry (''otp/'' @ salt_SaltID E otp) bytes (kv w)"
      using w' A w1 w2 sal by simp
    ultimately show ?thesis using j free by (intro exI[of _ bytes] exI[of _ "[(UUIDGen (fst cur), None)]"] exI[of _ ?x]) simp
  next
    fix pre
    assume c: "salted = salt_SaltID E otp" "map_of (kv w2) (''otp/'' @ salted) = None"
      "evs = pre @ [(StorageGet (''otp/'' @ salted), None)]"
    let ?pre = "[(UUIDGen (fst cur), None), (StorageGet (''otp/'' @ snd cur), case r of Inl e \<Rightarrow> Some e | Inr _ \<Rightarrow> None)] @ pre"
    have "trace w' = trace w @ ?pre @
              [(StorageGet (''otp/'' @ salt_SaltID E otp), None),
               (StoragePut (''otp/'' @ salt_SaltID E otp) bytes, None)]"
      using w' A c w1 w2 by auto
    moreover have "kv w' = put_entry (''otp/'' @ salt_SaltID E otp) bytes (kv w)"
      using w' A w1 w2 c by simp
    moreover have "list_all (\<lambda>c. is_probe (fst c)) ?pre" using A(3) c(3) by simp
    moreover have "map_of (kv w) (''otp/'' @ salt_SaltID E otp) = None" using c w1 w2 by simp
    ultimately show ?thesis using j
      by (intro exI[of _ bytes] exI[of _ ?pre] exI[of _ None]) simp
  qed
qed

text \<open>
  C4. A successful \<^verbatim>\<open>GenerateOTPCredential\<close> for the validated username \<open>U\<close> and
  address \<open>I\<close> performs exactly one storage write: the entry under the key \<^verbatim>\<open>otp/\<close>
  followed by the salted value of the returned OTP, whose value is the encoding of
  \<^verbatim>\<open>{username: U, ip: I}\<close>. The storage afterwards is the storage before with that one
  key bound; every other call is a fresh identifier or a read. The key is built from the
  salted value and the entry from \<open>U\<close> and \<open>I\<close> alone, and the OTP itself is the value
  returned. When the last read before the write succeeded, the key was free.
\<close>

theorem otp_entry_created_under_salted_key:
  assumes "GenerateOTPCredential E U I w = Some (Inr otp, w')"
  shows "\<exists>bytes pre x.
           json_Marshal E \<lparr>Username = U, IP = I\<rparr> = Inr bytes \<and>
           map_of (kv w') = (map_of (kv w))(''otp/'' @ salt_SaltID E otp \<mapsto> bytes) \<and>
           trace w' = trace w @ pre @
              [(StorageGet (''otp/'' @ salt_SaltID E otp), x),
               (StoragePut (''otp/'' @ salt_SaltID E otp) bytes, None)] \<and>
           list_all (\<lambda>c. \<not> is_put (fst c)) pre \<and>
           (x = None \<longrightarrow> map_of (kv w) (''otp/'' @ salt_SaltID E otp) = None)"
proof -
  from GenerateOTPCredential_success[OF assms] obtain bytes pre x where
    *: "json_Marshal E \<lparr>Username = U, IP = I\<rparr> = Inr bytes"
       "kv w' = put_entry (''otp/'' @ salt_SaltID E otp) bytes (kv w)"
       "trace w' = trace w @ pre @
              [(StorageGet (''otp/'' @ salt_SaltID E otp), x),
               (StoragePut (''otp/'' @ salt_SaltID E otp) bytes, None)]"
       "list_all (\<lambda>c. is_probe (fst c)) pre"
       "x = None \<longrightarrow> map_of (kv w) (''otp/'' @ salt_SaltID E otp) = None"
    by blast
  have "list_all (\<lambda>c. \<not> is_put (fst c)) pre"
    using *(4) by (simp add: list_all_iff probe_not_put)
  moreover have "map_of (kv w') = (map_of (kv w))(''otp/'' @ salt_SaltID E otp \<mapsto> bytes)"
    using *(2) by (simp add: map_of_put_entry)
  ultimately show ?thesis using *(1,3,5) by blast
qed

text \<open>
  The search passes the taken key of the first identifier and settles on the second:
  the entry of \<^verbatim>\<open>root\<close> stays, the new entry holds \<^verbatim>\<open>deploy\<close> and the address, and
  \<^verbatim>\<open>u1\<close> is returned.
\<close>

theorem otp_entry_created_under_salted_key_witness:
  "GenerateOTPCredential demo_env ''deploy'' ''10.0.0.5'' w_taken =
     Some (Inr ''u1'',
       \<lparr>kv = [(''otp/salted-u'', ''{username:root,ip:10.0.0.9}''),
              (''otp/salted-u1'', ''{username:deploy,ip:10.0.0.5}'')],
        trace = [(UUIDGen ''u'', None), (StorageGet ''otp/salted-u'', None),
                 (UUIDGen ''u1'', None), (StorageGet ''otp/salted-u1'', None),
                 (StoragePut ''otp/salted-u1'' ''{username:deploy,ip:10.0.0.5}'', None)]\<rparr>) \<and>
   map_of (kv w_taken) ''otp/salted-u1'' = None \<and>
   json_Marshal demo_env \<lparr>Username = ''deploy'', IP = ''10.0.0.5''\<rparr> =
     Inr ''{username:deploy,ip:10.0.0.5}''"
proof -
  have run: "GenerateOTPCredential demo_env ''deploy'' ''10.0.0.5'' w_taken =
     Some (Inr ''u1'',
       \<lparr>kv = [(''otp/salted-u'', ''{username:root,ip:10.0.0.9}''),
              (''otp/salted-u1'', ''{username:deploy,ip:10.0.0.5}'')],
        trace = [(UUIDGen ''u'', None), (StorageGet ''otp/salted-u'', None),
                 (UUIDGen ''u1'', None), (StorageGet ''otp/salted-u1'', None),
                 (StoragePut ''otp/salted-u1'' ''{username:deploy,ip:10.0.0.5}'', None)]\<rparr>)"
    by code_simp
  from otp_entry_created_under_salted_key[OF run] obtain bytes pre x where
    j: "json_Marshal demo_env \<lparr>Username = ''deploy'', IP = ''10.0.0.5''\<rparr> = Inr bytes" and
    t: "trace \<lparr>kv = [(''otp/salted-u'', ''{username:root,ip:10.0.0.9}''),
              (''otp/salted-u1'', ''{username:deploy,ip:10.0.0.5}'')],
        trace = [(UUIDGen ''u'', None), (StorageGet ''otp/salted-u'', None),
                 (UUIDGen ''u1'', None), (StorageGet ''otp/salted-u1'', None),
                 (StoragePut ''otp/salted-u1'' ''{username:deploy,ip:10.0.0.5}'', None)]\<rparr>
         = trace w_taken @ pre @
              [(StorageGet (''otp/'' @ salt_SaltID demo_env ''u1''), x),
               (StoragePut (''otp/'' @ salt_SaltID demo_env ''u1'') bytes, None)]" and
    f: "x = None \<longrightarrow> map_of (kv w_taken) (''otp/'' @ salt_SaltID demo_env ''u1'') = None"
    by blast
  from t have "x = None" and "bytes = ''{username:deploy,ip:10.0.0.5}''"
    by (simp_all add: w_taken_def demo_env_def append_eq_append_conv2 append_eq_Cons_conv
          Cons_eq_append_conv)
  with j f run show ?thesis by (simp add: demo_env_def)
qed

text \<open>
  C1. The claim fails when the first read fails: the loop is not entered, the error of
  the read is overwritten by the result of \<^verbatim>\<open>StorageEntryJSON\<close>, the entry is written
  over the one that was there, and the OTP is returned as if the key had been free.
\<close>

theorem first_read_error_is_dropped:
  "GenerateOTPCredential env_read_fails ''deploy'' ''10.0.0.5'' w_taken =
     Some (Inr ''u'',
       \<lparr>kv = [(''otp/salted-u'', ''{username:deploy,ip:10.0.0.5}'')],
        trace = [(UUIDGen ''u'', None),
                 (StorageGet ''otp/salted-u'', Some ''storage unavailable''),
                 (StoragePut ''otp/salted-u'' ''{username:deploy,ip:10.0.0.5}'', None)]\<rparr>)"
  by code_simp

text \<open>
  This is so for every storage: when the first read fails and the encoding and the write
  succeed, the OTP is returned and the entry is written.
\<close>

lemma first_read_error_dropped:
  assumes "GenerateSaltedOTP E w = ((otp, otpSalted), w1)"
    and "Storage_Get E (''otp/'' @ otpSalted) w1 = (Inl e, w2)"
    and "json_Marshal E \<lparr>Username = U, IP = I\<rparr> = Inr bytes"
    and "Storage_Put E (''otp/'' @ otpSalted, bytes) w2 = (None, w3)"
  shows "GenerateOTPCredential E U I w = Some (Inr otp, w3)"
  using assms
  by (simp add: GenerateOTPCredential_def free_key_loop.simps StorageEntryJSON_def)

text \<open>
  A read inside the loop body is handled as the specification says: its error ends the
  loop and is returned, and nothing is written.
\<close>

lemma read_error_in_loop_returned:
  assumes "GenerateSaltedOTP E w = (cur', w1)"
    and "Storage_Get E (''otp/'' @ snd cur') w1 = (Inl e, w2)"
  shows "free_key_loop E cur (Inr (Some entry)) w = Some (Inl e, w2)"
  using assms by (subst free_key_loop.simps) simp

lemma later_read_error_is_returned:
  "GenerateOTPCredential env_later_read_fails ''deploy'' ''10.0.0.5'' w_taken =
     Some (Inl ''storage unavailable'',
       \<lparr>kv = [(''otp/salted-u'', ''{username:root,ip:10.0.0.9}'')],
        trace = [(UUIDGen ''u'', None), (StorageGet ''otp/salted-u'', None),
                 (UUIDGen ''u1'', None),
                 (StorageGet ''otp/salted-u1'', Some ''storage unavailable'')]\<rparr>)"
  by code_simp

section \<open>Dynamic keys\<close>

lemma Storage_Get_effect:
  assumes "Storage_Get E k w = (r, w')"
  shows "kv w' = kv w"
    and "trace w' = trace w @ [(StorageGet k, case r of Inl e \<Rightarrow> Some e | Inr _ \<Rightarrow> None)]"
    and "\<And>x. r = Inr x \<Longrightarrow> x = map_of (kv w) k"
  using assms by (auto simp: Storage_Get_def record_call_def split: option.splits)

lemma generateRSAKeys_effect:
  assumes "generateRSAKeys E bits w = (r, w')"
  shows "kv w' = kv w"
    and "trace w' = trace w @ [(RSAGen bits, case r of Inl e \<Rightarrow> Some e | Inr _ \<Rightarrow> None)]"
  using assms by (auto simp: generateRSAKeys_def record_call_def split: sum.splits)

lemma GenerateSaltedOTP_effect:
  assumes "GenerateSaltedOTP E w = (cur, w')"
  shows "kv w' = kv w"
    and "trace w' = trace w @ [(UUIDGen (fst cur), None)]"
    and "snd cur = salt_SaltID E (fst cur)"
  using assms by (auto simp: GenerateSaltedOTP_def record_call_def Let_def)

lemma scpUpload_effect:
  assumes "scpUpload E a ip p hk f c w = (r, w')"
  shows "kv w' = kv w"
    and "trace w' = trace w @ [(ScpUpload a ip p hk f c, r)]"
  using assms by (auto simp: scpUpload_def record_call_def Let_def)

lemma installPublicKeyInTarget_effect:
  assumes "installPublicKeyInTarget E a f u ip p hk b w = (r, w')"
  shows "kv w' = kv w"
    and "trace w' = trace w @ [(InstallKey a f u ip p hk b, r)]"
  using assms by (auto simp: installPublicKeyInTarget_def record_call_def Let_def)

text \<open>
  The runs of \<^verbatim>\<open>GenerateDynamicCredential\<close>: the storage is never changed, and the
  calls are a prefix of read, key generation, identifier, upload, upload, install, cut
  at the first call that fails.
\<close>

lemma GenerateDynamicCredential_cases:
  assumes run: "GenerateDynamicCredential E role u ip w = (r, w')"
  shows "kv w' = kv w \<and> (\<exists>evs. trace w' = trace w @ evs \<and>
    ((\<exists>e x. evs = [(StorageGet (''keys/'' @ KeyName role), x)] \<and> r = Inl e) \<or>
     (\<exists>e. evs = [(StorageGet (''keys/'' @ KeyName role), None),
                 (RSAGen (KeyBits role), Some e)] \<and>
          r = Inl (''error generating key: '' @ e)) \<or>
     (\<exists>hk pub priv uid.
        (\<exists>e. evs = [(StorageGet (''keys/'' @ KeyName role), None),
                    (RSAGen (KeyBits role), None), (UUIDGen uid, None),
                    (ScpUpload (AdminUser role) ip (Port role) hk (salt_SaltID E uid) pub, Some e)] \<and>
             r = Inl (''error uploading public key: '' @ e)) \<or>
        (\<exists>e. evs = [(StorageGet (''keys/'' @ KeyName role), None),
                    (RSAGen (KeyBits role), None), (UUIDGen uid, None),
                    (ScpUpload (AdminUser role) ip (Port role) hk (salt_SaltID E uid) pub, None),
                    (ScpUpload (AdminUser role) ip (Port role) hk (salt_SaltID E uid @ ''.sh'')
                       (InstallScript role), Some e)] \<and>
             r = Inl (''error uploading install script: '' @ e)) \<or>
        (\<exists>x. evs = [(StorageGet (''keys/'' @ KeyName role), None),
                    (RSAGen (KeyBits role), None), (UUIDGen uid, None),
                    (ScpUpload (AdminUser role) ip (Port role) hk (salt_SaltID E uid) pub, None),
                    (ScpUpload (AdminUser role) ip (Port role) hk (salt_SaltID E uid @ ''.sh'')
                       (InstallScript role), None),
                    (InstallKey (AdminUser role) (salt_SaltID E uid) u ip (Port role) hk True, x)] \<and>
             (case x of
                Some e \<Rightarrow> r = Inl ''error adding public key to authorized_keys file in target''
              | None \<Rightarrow> r = Inr (pub, priv))))))"
proof -
  let ?get = "StorageGet (''keys/'' @ KeyName role)"
  obtain r1 w1 where g: "Storage_Get E (''keys/'' @ KeyName role) w = (r1, w1)" by fastforce
  note G = Storage_Get_effect[OF g]
  show ?thesis
  proof (cases "\<exists>k hk. r1 = Inr (Some k) \<and> DecodeJSON_hostKey E k = Inr hk")
    case False
    then have "w' = w1 \<and> (\<exists>e. r = Inl e)"
      using run g by (auto simp: GenerateDynamicCredential_def split: sum.splits option.splits)
    then show ?thesis using G(1,2) by auto
  next
    case True
    then obtain k hk where k: "r1 = Inr (Some k)" "DecodeJSON_hostKey E k = Inr hk" by blast
    have T1: "trace w1 = trace w @ [(?get, None)]" using G(2) k by simp
    obtain r2 w2 where rsa: "generateRSAKeys E (KeyBits role) w1 = (r2, w2)" by fastforce
    note R = generateRSAKeys_effect[OF rsa]
    show ?thesis
    proof (cases r2)
      case (Inl e)
      then have "w' = w2" "r = Inl (''error generating key: '' @ e)"
        using run g k rsa by (auto simp: GenerateDynamicCredential_def)
      then show ?thesis using G(1) R T1 Inl by auto
    next
      case (Inr ks)
      obtain pub priv where ks: "ks = (pub, priv)" by (cases ks)
      obtain cur w3 where s: "GenerateSaltedOTP E w2 = (cur, w3)" by fastforce
      note S = GenerateSaltedOTP_effect[OF s]
      obtain uid f where cur: "cur = (uid, f)" by (cases cur)
      have f: "f = salt_SaltID E uid" using S(3) cur by simp
      have T3: "trace w3 = trace w @ [(?get, None), (RSAGen (KeyBits role), None), (UUIDGen uid, None)]"
        using T1 R(2) S(2) Inr cur by simp
      have K3: "kv w3 = kv w" using G(1) R(1) S(1) by simp
      obtain r4 w4 where u1: "scpUpload E (AdminUser role) ip (Port role) hk f pub w3 = (r4, w4)"
        by fastforce
      note U1 = scpUpload_effect[OF u1]
      obtain r5 w5 where u2: "scpUpload E (AdminUser role) ip (Port role) hk (f @ ''.sh'')
          (InstallScript role) w4 = (r5, w5)" by fastforce
      note U2 = scpUpload_effect[OF u2]
      obtain r6 w6 where i: "installPublicKeyInTarget E (AdminUser role) f u ip (Port role) hk True w5
          = (r6, w6)" by fastforce
      note I = installPublicKeyInTarget_effect[OF i]
      have unf: "(r, w') =
          (case r4 of Some e \<Rightarrow> (Inl (''error uploading public key: '' @ e), w4)
           | None \<Rightarrow>
            (case r5 of Some e \<Rightarrow> (Inl (''error uploading install script: '' @ e), w5)
             | None \<Rightarrow>
               (case r6 of Some e \<Rightarrow> (Inl ''error adding public key to authorized_keys file in target'', w6)
                | None \<Rightarrow> (Inr (pub, priv), w6))))"
        using run g k rsa Inr ks s cur u1 u2 i
        by (simp add: GenerateDynamicCredential_def split: option.splits)
      show ?thesis
      proof (cases r4)
        case (Some e)
        with unf have "w' = w4" "r = Inl (''error uploading public key: '' @ e)" by simp_all
        moreover have "trace w4 = trace w @ [(?get, None), (RSAGen (KeyBits role), None),
                    (UUIDGen uid, None),
                    (ScpUpload (AdminUser role) ip (Port role) hk (salt_SaltID E uid) pub, Some e)]"
          using T3 U1(2) Some f by simp
        moreover have "kv w4 = kv w" using K3 U1(1) by simp
        ultimately show ?thesis by blast
      next
        case None note r4 = this
        show ?thesis
        proof (cases r5)
          case (Some e)
          with unf r4 have "w' = w5" "r = Inl (''error uploading install script: '' @ e)" by simp_all
          moreover have "trace w5 = trace w @ [(?get, None), (RSAGen (KeyBits role), None),
                    (UUIDGen uid, None),
                    (ScpUpload (AdminUser role) ip (Port role) hk (salt_SaltID E uid) pub, None),
                    (ScpUpload (AdminUser role) ip (Port role) hk (salt_SaltID E uid @ ''.sh'')
                       (InstallScript role), Some e)]"
            using T3 U1(2) U2(2) Some r4 f by simp
          moreover have "kv w5 = kv w" using K3 U1(1) U2(1) by simp
          ultimately show ?thesis by blast
        next
          case None note r5 = this
          from unf r4 r5 have w': "w' = w6" and
            r: "case r6 of Some e \<Rightarrow> r = Inl ''error adding public key to authorized_keys file in target''
                | None \<Rightarrow> r = Inr (pub, priv)"
            by (auto split: option.splits)
          have "trace w' = trace w @ [(?get, None), (RSAGen (KeyBits role), None), (UUIDGen uid, None),
                    (ScpUpload (AdminUser role) ip (Port role) hk (salt_SaltID E uid) pub, None),
                    (ScpUpload (AdminUser role) ip (Port role) hk (salt_SaltID E uid @ ''.sh'')
                       (InstallScript role), None),
                    (InstallKey (AdminUser role) (salt_SaltID E uid) u ip (Port role) hk True, r6)]"
            using w' T3 U1(2) U2(2) I(2) r4 r5 f by simp
          moreover have "kv w' = kv w" using w' K3 U1(1) U2(1) I(1) by simp
          ultimately show ?thesis using r by blast
        qed
      qed
    qed
  qed
qed

section \<open>The handler's paths\<close>

lemma issue_result_Return:
  assumes "issue_result E d w = Some (Return r, w1)"
  shows "(\<exists>e. r = Inl e) \<or> (\<exists>m. r = Inr (ErrorResponse m))"
  using assms unfolding issue_result_def Let_def
  by (auto split: if_splits sum.splits option.splits prod.splits)

lemma issue_result_Continue:
  assumes "issue_result E d w = Some (Continue result, w2)"
  shows "\<exists>role ipAddr.
           f_role d \<noteq> [] \<and> f_ip d \<noteq> [] \<and>
           role_of E w (f_role d) = Inr (Some role) \<and>
           \<not> (f_username d = [] \<and> DefaultUser role = []) \<and>
           net_ParseIP E (f_ip d) = Some ipAddr \<and>
           cidrContainsIP E (IP_String E ipAddr) (CIDRList role) = Inr True \<and>
           ((KeyType role = KeyTypeOTP \<and>
             (\<exists>otp. GenerateOTPCredential E
                      (if f_username d = [] then DefaultUser role else f_username d)
                      (IP_String E ipAddr) (record_call (RoleLookup (f_role d)) None w)
                      = Some (Inr otp, w2) \<and>
                    result = Secret_Response E SecretOTPType
                               [(''key_type'', JString (KeyType role)), (''key'', JString otp)]
                               [(''otp'', JString otp)])) \<or>
            (KeyType role = KeyTypeDynamic \<and>
             (\<exists>pub priv. GenerateDynamicCredential E role
                      (if f_username d = [] then DefaultUser role else f_username d)
                      (IP_String E ipAddr) (record_call (RoleLookup (f_role d)) None w)
                      = (Inr (pub, priv), w2) \<and>
                    result = Secret_Response E SecretDynamicKeyType
                               [(''key'', JString priv), (''key_type'', JString (KeyType role))]
                               [(''admin_user'', JString (AdminUser role)),
                                (''username'', JString
                                   (if f_username d = [] then DefaultUser role else f_username d)),
                                (''ip'', JString (IP_String E ipAddr)),
                                (''host_key_name'', JString (KeyName role)),
                                (''dynamic_public_key'', JString pub),
                                (''port'', JInt (Port role)),
                                (''install_script'', JString (InstallScript role))])))"
  using assms unfolding issue_result_def Let_def getRole_def
  by (auto split: if_splits sum.splits option.splits prod.splits)

lemma apply_lease_result:
  "apply_lease E result w2 =
     (Inr (SecretResponse (fst result)
        ((snd result)\<lparr>SecretLease := (case fst (lease_of E w2) of Some l \<Rightarrow> Lease l | None \<Rightarrow> 10 * time_Minute),
                      LeaseGracePeriod := (case fst (lease_of E w2) of Some l \<Rightarrow> LeaseMax l | None \<Rightarrow> 2 * time_Minute)\<rparr>)),
      record_call LeaseLookup (snd (lease_of E w2)) w2)"
  by (cases "lease_of E w2") (auto simp: apply_lease_def b_Lease_def Let_def split: option.splits)

lemma issue_result_validation:
  assumes "f_role d \<noteq> []" "f_ip d \<noteq> []" "role_of E w (f_role d) = Inr (Some role)"
  shows "issue_result E d w =
     (if f_username d = [] \<and> DefaultUser role = []
      then Some (Return (Inr (ErrorResponse
                       (''No default username registered. Use '' @ quote @ ''username'' @ quote
                          @ '' option''))), record_call (RoleLookup (f_role d)) None w)
      else case net_ParseIP E (f_ip d) of
         None \<Rightarrow> Some (Return (Inr (ErrorResponse (''Invalid IP '' @ quote @ f_ip d @ quote))),
                   record_call (RoleLookup (f_role d)) None w)
       | Some ipAddr \<Rightarrow>
          (case cidrContainsIP E (IP_String E ipAddr) (CIDRList role) of
             Inl e \<Rightarrow> Some (Return (Inr (ErrorResponse (''Error validating IP: '' @ e))),
                          record_call (RoleLookup (f_role d)) None w)
           | Inr False \<Rightarrow> Some (Return (Inr (ErrorResponse
                                   (''IP['' @ IP_String E ipAddr @ ''] does not belong to role['' @ f_role d
                                      @ '']''))), record_call (RoleLookup (f_role d)) None w)
           | Inr True \<Rightarrow>
               if KeyType role \<noteq> KeyTypeOTP \<and> KeyType role \<noteq> KeyTypeDynamic
               then Some (Return (Inl ''key type unknown''), record_call (RoleLookup (f_role d)) None w)
               else issue_result E d w))"
  using assms unfolding issue_result_def Let_def getRole_def
  by (auto split: if_splits sum.splits option.splits prod.splits bool.splits)

lemma issue_result_early:
  "f_role d = [] \<Longrightarrow> issue_result E d w = Some (Return (Inr (ErrorResponse ''Missing role'')), w)"
  "f_role d \<noteq> [] \<Longrightarrow> f_ip d = [] \<Longrightarrow>
     issue_result E d w = Some (Return (Inr (ErrorResponse ''Missing ip'')), w)"
  "f_role d \<noteq> [] \<Longrightarrow> f_ip d \<noteq> [] \<Longrightarrow> role_of E w (f_role d) = Inr None \<Longrightarrow>
     issue_result E d w = Some (Return (Inr (ErrorResponse
                       (''Role '' @ quote @ f_role d @ quote @ '' not found''))),
                     record_call (RoleLookup (f_role d)) None w)"
  unfolding issue_result_def Let_def getRole_def by simp_all

section \<open>Validation\<close>

text \<open>
  C2, as the code has it. When the role resolves and the non-empty \<^verbatim>\<open>ip\<close> field does
  not parse, the handler returns a validation error and has only looked the role up. The
  error is \<^verbatim>\<open>Invalid IP\<close> when a username is available, from the request or as the
  role's default. When the username is omitted and the role has no default username, the
  username test comes first and the error is \<^verbatim>\<open>No default username registered\<close>.
\<close>

theorem invalid_ip_after_username_check:
  assumes "f_role d \<noteq> []" and "f_ip d \<noteq> []"
    and "role_of E w (f_role d) = Inr (Some role)"
    and "net_ParseIP E (f_ip d) = None"
  shows "pathCredsCreateWrite E d w =
           Some (Inr (ErrorResponse
                   (if f_username d = [] \<and> DefaultUser role = []
                    then ''No default username registered. Use '' @ quote @ ''username'' @ quote
                           @ '' option''
                    else ''Invalid IP '' @ quote @ f_ip d @ quote)),
                 record_call (RoleLookup (f_role d)) None w)"
  using assms by (simp add: pathCredsCreateWrite_def issue_result_validation)

text \<open>Role \<^verbatim>\<open>web\<close> has the default user \<^verbatim>\<open>deploy\<close>; the address has an octet of 500.\<close>

theorem invalid_ip_after_username_check_witness:
  "pathCredsCreateWrite demo_env \<lparr>f_role = ''web'', f_username = [], f_ip = ''10.0.0.500''\<rparr> w0 =
     Some (Inr (ErrorResponse (''Invalid IP '' @ quote @ ''10.0.0.500'' @ quote)),
           record_call (RoleLookup ''web'') None w0)"
proof -
  have "role_of demo_env w0 ''web'' = Inr (Some role_web)"
    by (simp add: demo_env_def demo_roles_def)
  moreover have "net_ParseIP demo_env ''10.0.0.500'' = None"
    by (simp add: demo_env_def demo_ParseIP_def)
  moreover have "DefaultUser role_web \<noteq> []" by (simp add: role_web_def)
  ultimately show ?thesis
    using invalid_ip_after_username_check
            [of "\<lparr>f_role = ''web'', f_username = [], f_ip = ''10.0.0.500''\<rparr>" demo_env w0 role_web]
    by simp
qed

text \<open>
  The claim as it was stated fails for role \<^verbatim>\<open>anon\<close>, which has no default user,
  when the request gives no username: the address does not parse, and the error is the
  one about the username.
\<close>

theorem invalid_ip_counterexample:
  "role_of demo_env w0 ''anon'' = Inr (Some role_anon) \<and>
   net_ParseIP demo_env ''10.0.0.500'' = None \<and>
   pathCredsCreateWrite demo_env \<lparr>f_role = ''anon'', f_username = [], f_ip = ''10.0.0.500''\<rparr> w0 =
     Some (Inr (ErrorResponse
             (''No default username registered. Use '' @ quote @ ''username'' @ quote @ '' option'')),
           record_call (RoleLookup ''anon'') None w0) \<and>
   pathCredsCreateWrite demo_env \<lparr>f_role = ''anon'', f_username = [], f_ip = ''10.0.0.500''\<rparr> w0 \<noteq>
     Some (Inr (ErrorResponse (''Invalid IP '' @ quote @ ''10.0.0.500'' @ quote)),
           record_call (RoleLookup ''anon'') None w0)"
  by code_simp

text \<open>
  C6. Every validation failure (empty role, empty ip, role not found, no username
  available, invalid IP, malformed CIDR list on the role, IP outside every CIDR block)
  returns a structured user-error response. The storage is unchanged, and the only call
  that can have been made is the lookup of the role: no write, no remote session. With
  an empty role or an empty ip nothing at all is contacted.
\<close>

theorem validation_failure_has_no_side_effect:
  assumes "f_role d = [] \<or> f_ip d = [] \<or> role_of E w (f_role d) = Inr None \<or>
           (\<exists>role. role_of E w (f_role d) = Inr (Some role) \<and>
              ((f_username d = [] \<and> DefaultUser role = []) \<or>
               net_ParseIP E (f_ip d) = None \<or>
               (\<exists>ipAddr. net_ParseIP E (f_ip d) = Some ipAddr \<and>
                  ((\<exists>e. cidrContainsIP E (IP_String E ipAddr) (CIDRList role) = Inl e) \<or>
                   cidrContainsIP E (IP_String E ipAddr) (CIDRList role) = Inr False))))"
  shows "\<exists>msg w'. pathCredsCreateWrite E d w = Some (Inr (ErrorResponse msg), w') \<and>
           kv w' = kv w \<and>
           (trace w' = trace w \<or> trace w' = trace w @ [(RoleLookup (f_role d), None)]) \<and>
           (f_role d = [] \<or> f_ip d = [] \<longrightarrow> w' = w)"
proof (cases "f_role d = [] \<or> f_ip d = []")
  case True
  then show ?thesis
    by (cases "f_role d = []") (auto simp: pathCredsCreateWrite_def issue_result_early)
next
  case False
  then have ne: "f_role d \<noteq> []" "f_ip d \<noteq> []" by simp_all
  show ?thesis
  proof (cases "role_of E w (f_role d) = Inr None")
    case True
    then show ?thesis using ne
      by (simp add: pathCredsCreateWrite_def issue_result_early record_call_def)
  next
    case notnone: False
    with assms ne obtain role where
      r: "role_of E w (f_role d) = Inr (Some role)" and
      v: "(f_username d = [] \<and> DefaultUser role = []) \<or>
               net_ParseIP E (f_ip d) = None \<or>
               (\<exists>ipAddr. net_ParseIP E (f_ip d) = Some ipAddr \<and>
                  ((\<exists>e. cidrContainsIP E (IP_String E ipAddr) (CIDRList role) = Inl e) \<or>
                   cidrContainsIP E (IP_String E ipAddr) (CIDRList role) = Inr False))"
      by auto
    from v show ?thesis using ne
      by (auto simp: pathCredsCreateWrite_def issue_result_validation[OF ne r] record_call_def)
  qed
qed

text \<open>
  The rejection scenario of the specification: role \<^verbatim>\<open>web\<close>, address
  \<^verbatim>\<open>192.168.1.1\<close> outside \<^verbatim>\<open>10.0.0.0/24\<close>.
\<close>

theorem validation_failure_has_no_side_effect_witness:
  "pathCredsCreateWrite demo_env \<lparr>f_role = ''web'', f_username = [], f_ip = ''192.168.1.1''\<rparr> w0 =
     Some (Inr (ErrorResponse ''IP[192.168.1.1] does not belong to role[web]''),
           \<lparr>kv = [(''keys/hostkey'', ''HOSTKEY'')], trace = [(RoleLookup ''web'', None)]\<rparr>) \<and>
   kv w0 = [(''keys/hostkey'', ''HOSTKEY'')]"
proof -
  let ?d = "\<lparr>f_role = ''web'', f_username = [], f_ip = ''192.168.1.1''\<rparr>"
  have run: "pathCredsCreateWrite demo_env ?d w0 =
     Some (Inr (ErrorResponse ''IP[192.168.1.1] does not belong to role[web]''),
           \<lparr>kv = [(''keys/hostkey'', ''HOSTKEY'')], trace = [(RoleLookup ''web'', None)]\<rparr>)"
    by code_simp
  have "role_of demo_env w0 (f_role ?d) = Inr (Some role_web)"
    by (simp add: demo_env_def demo_roles_def)
  moreover have "net_ParseIP demo_env (f_ip ?d) = Some [192, 168, 1, 1]"
    by (simp add: demo_env_def demo_ParseIP_def)
  moreover have "cidrContainsIP demo_env (IP_String demo_env [192, 168, 1, 1]) (CIDRList role_web)
                   = Inr False"
    by (simp add: demo_env_def demo_cidr_def demo_String_def role_web_def)
  ultimately have "f_role ?d = [] \<or> f_ip ?d = [] \<or> role_of demo_env w0 (f_role ?d) = Inr None \<or>
           (\<exists>role. role_of demo_env w0 (f_role ?d) = Inr (Some role) \<and>
              ((f_username ?d = [] \<and> DefaultUser role = []) \<or>
               net_ParseIP demo_env (f_ip ?d) = None \<or>
               (\<exists>ipAddr. net_ParseIP demo_env (f_ip ?d) = Some ipAddr \<and>
                  ((\<exists>e. cidrContainsIP demo_env (IP_String demo_env ipAddr) (CIDRList role) = Inl e) \<or>
                   cidrContainsIP demo_env (IP_String demo_env ipAddr) (CIDRList role) = Inr False))))"
    by blast
  from validation_failure_has_no_side_effect[OF this] obtain msg w' where
    "pathCredsCreateWrite demo_env ?d w0 = Some (Inr (ErrorResponse msg), w')" "kv w' = kv w0"
    by blast
  with run show ?thesis by simp
qed

text \<open>
  C8. When the request passes every validation and the key type of the role is neither
  \<^verbatim>\<open>otp\<close> nor \<^verbatim>\<open>dynamic\<close>, the handler returns the internal error
  \<^verbatim>\<open>key type unknown\<close>, not an error response, and the only call made is the lookup of
  the role: no identifier or key is generated, nothing is stored or uploaded.
\<close>

theorem unknown_key_type_is_internal_error:
  assumes "f_role d \<noteq> []" and "f_ip d \<noteq> []"
    and "role_of E w (f_role d) = Inr (Some role)"
    and "\<not> (f_username d = [] \<and> DefaultUser role = [])"
    and "net_ParseIP E (f_ip d) = Some ipAddr"
    and "cidrContainsIP E (IP_String E ipAddr) (CIDRList role) = Inr True"
    and "KeyType role \<noteq> KeyTypeOTP" and "KeyType role \<noteq> KeyTypeDynamic"
  shows "pathCredsCreateWrite E d w =
           Some (Inl ''key type unknown'', record_call (RoleLookup (f_role d)) None w)"
  using assms(4-8)
  by (simp add: pathCredsCreateWrite_def issue_result_validation[OF assms(1-3)])

text \<open>Role \<^verbatim>\<open>corrupt\<close> carries the key type \<^verbatim>\<open>ca\<close>.\<close>

theorem unknown_key_type_is_internal_error_witness:
  "pathCredsCreateWrite demo_env \<lparr>f_role = ''corrupt'', f_username = [], f_ip = ''10.0.0.5''\<rparr> w0 =
     Some (Inl ''key type unknown'',
           \<lparr>kv = [(''keys/hostkey'', ''HOSTKEY'')], trace = [(RoleLookup ''corrupt'', None)]\<rparr>)"
proof -
  let ?d = "\<lparr>f_role = ''corrupt'', f_username = [], f_ip = ''10.0.0.5''\<rparr>"
  have 1: "f_role ?d \<noteq> []" and 2: "f_ip ?d \<noteq> []" by simp_all
  have 3: "role_of demo_env w0 (f_role ?d) = Inr (Some role_corrupt)"
    by (simp add: demo_env_def demo_roles_def)
  have 4: "\<not> (f_username ?d = [] \<and> DefaultUser role_corrupt = [])"
    by (simp add: role_corrupt_def role_web_def)
  have 5: "net_ParseIP demo_env (f_ip ?d) = Some [10, 0, 0, 5]"
    by (simp add: demo_env_def demo_ParseIP_def)
  have 6: "cidrContainsIP demo_env (IP_String demo_env [10, 0, 0, 5]) (CIDRList role_corrupt)
             = Inr True"
    by (simp add: demo_env_def demo_cidr_def demo_String_def role_corrupt_def role_web_def)
  have 7: "KeyType role_corrupt \<noteq> KeyTypeOTP" and 8: "KeyType role_corrupt \<noteq> KeyTypeDynamic"
    by (simp_all add: role_corrupt_def role_web_def KeyTypeOTP_def KeyTypeDynamic_def)
  from unknown_key_type_is_internal_error[OF 1 2 3 4 5 6 7 8]
  show ?thesis by (simp add: record_call_def w0_def)
qed

section \<open>Installation of a dynamic key\<close>

text \<open>
  C5. In every run of \<^verbatim>\<open>GenerateDynamicCredential\<close>, if the install step runs at all
  then it is the last call, and the two calls before it are the upload of the public key
  and the upload of the install script, to the same target and both without error. The
  first upload of a run is the upload of the public key: if it fails, it is the last
  call of the run (no second upload, no install, no call that would undo anything) and
  the result is the error \<^verbatim>\<open>error uploading public key\<close>.
\<close>

theorem install_only_after_both_uploads:
  assumes "GenerateDynamicCredential E role u ip w = (r, w')"
  shows "\<exists>evs. trace w' = trace w @ evs \<and>
           ((\<exists>c\<in>set evs. is_install (fst c)) \<longrightarrow>
              (\<exists>before hk f pub x.
                 evs = before @
                   [(ScpUpload (AdminUser role) ip (Port role) hk f pub, None),
                    (ScpUpload (AdminUser role) ip (Port role) hk (f @ ''.sh'')
                       (InstallScript role), None),
                    (InstallKey (AdminUser role) f u ip (Port role) hk True, x)] \<and>
                 list_all (\<lambda>c. \<not> is_upload (fst c) \<and> \<not> is_install (fst c)) before)) \<and>
           (\<forall>up e rest. dropWhile (\<lambda>c. \<not> is_upload (fst c)) evs = (up, Some e) # rest \<longrightarrow>
              rest = [] \<and> r = Inl (''error uploading public key: '' @ e))"
proof -
  let ?get = "StorageGet (''keys/'' @ KeyName role)"
  from GenerateDynamicCredential_cases[OF assms] obtain evs where
    t: "trace w' = trace w @ evs" and
    c: "(\<exists>e x. evs = [(?get, x)] \<and> r = Inl e) \<or>
       (\<exists>e. evs = [(?get, None), (RSAGen (KeyBits role), Some e)] \<and>
            r = Inl (''error generating key: '' @ e)) \<or>
       (\<exists>hk pub priv uid.
          (\<exists>e. evs = [(?get, None), (RSAGen (KeyBits role), None), (UUIDGen uid, None),
                      (ScpUpload (AdminUser role) ip (Port role) hk (salt_SaltID E uid) pub, Some e)] \<and>
               r = Inl (''error uploading public key: '' @ e)) \<or>
          (\<exists>e. evs = [(?get, None), (RSAGen (KeyBits role), None), (UUIDGen uid, None),
                      (ScpUpload (AdminUser role) ip (Port role) hk (salt_SaltID E uid) pub, None),
                      (ScpUpload (AdminUser role) ip (Port role) hk (salt_SaltID E uid @ ''.sh'')
                         (InstallScript role), Some e)] \<and>
               r = Inl (''error uploading install script: '' @ e)) \<or>
          (\<exists>x. evs = [(?get, None), (RSAGen (KeyBits role), None), (UUIDGen uid, None),
                      (ScpUpload (AdminUser role) ip (Port role) hk (salt_SaltID E uid) pub, None),
                      (ScpUpload (AdminUser role) ip (Port role) hk (salt_SaltID E uid @ ''.sh'')
                         (InstallScript role), None),
                      (InstallKey (AdminUser role) (salt_SaltID E uid) u ip (Port role) hk True, x)] \<and>
               (case x of
                  Some e \<Rightarrow> r = Inl ''error adding public key to authorized_keys file in target''
                | None \<Rightarrow> r = Inr (pub, priv))))"
    by blast
  let ?P = "\<lambda>evs. ((\<exists>c\<in>set evs. is_install (fst c)) \<longrightarrow>
              (\<exists>before hk f pub x.
                 evs = before @
                   [(ScpUpload (AdminUser role) ip (Port role) hk f pub, None),
                    (ScpUpload (AdminUser role) ip (Port role) hk (f @ ''.sh'')
                       (InstallScript role), None),
                    (InstallKey (AdminUser role) f u ip (Port role) hk True, x)] \<and>
                 list_all (\<lambda>c. \<not> is_upload (fst c) \<and> \<not> is_install (fst c)) before)) \<and>
           (\<forall>up e rest. dropWhile (\<lambda>c. \<not> is_upload (fst c)) evs = (up, Some e) # rest \<longrightarrow>
              rest = [] \<and> r = Inl (''error uploading public key: '' @ e))"
  from c have "?P evs"
  proof (elim disjE exE conjE)
    fix e x assume "evs = [(?get, x)]" "r = Inl e"
    then show ?thesis by simp
  next
    fix e assume "evs = [(?get, None), (RSAGen (KeyBits role), Some e)]"
    then show ?thesis by simp
  next
    fix hk pub priv uid e
    assume "evs = [(?get, None), (RSAGen (KeyBits role), None), (UUIDGen uid, None),
                      (ScpUpload (AdminUser role) ip (Port role) hk (salt_SaltID E uid) pub, Some e)]"
       "r = Inl (''error uploading public key: '' @ e)"
    then show ?thesis by simp
  next
    fix hk pub priv uid e
    assume "evs = [(?get, None), (RSAGen (KeyBits role), None), (UUIDGen uid, None),
                      (ScpUpload (AdminUser role) ip (Port role) hk (salt_SaltID E uid) pub, None),
                      (ScpUpload (AdminUser role) ip (Port role) hk (salt_SaltID E uid @ ''.sh'')
                         (InstallScript role), Some e)]"
    then show ?thesis by simp
  next
    fix hk pub priv uid x
    assume e: "evs = [(?get, None), (RSAGen (KeyBits role), None), (UUIDGen uid, None),
                      (ScpUpload (AdminUser role) ip (Port role) hk (salt_SaltID E uid) pub, None),
                      (ScpUpload (AdminUser role) ip (Port role) hk (salt_SaltID E uid @ ''.sh'')
                         (InstallScript role), None),
                      (InstallKey (AdminUser role) (salt_SaltID E uid) u ip (Port role) hk True, x)]"
    have "\<exists>before hk' f pub' x'.
                 evs = before @
                   [(ScpUpload (AdminUser role) ip (Port role) hk' f pub', None),
                    (ScpUpload (AdminUser role) ip (Port role) hk' (f @ ''.sh'')
                       (InstallScript role), None),
                    (InstallKey (AdminUser role) f u ip (Port role) hk' True, x')] \<and>
                 list_all (\<lambda>c. \<not> is_upload (fst c) \<and> \<not> is_install (fst c)) before"
      apply (rule exI[of _ "[(?get, None), (RSAGen (KeyBits role), None), (UUIDGen uid, None)]"])
      apply (rule exI[of _ hk], rule exI[of _ "salt_SaltID E uid"], rule exI[of _ pub],
             rule exI[of _ x])
      using e by simp
    moreover have "\<forall>up e rest. dropWhile (\<lambda>c. \<not> is_upload (fst c)) evs = (up, Some e) # rest \<longrightarrow>
              rest = [] \<and> r = Inl (''error uploading public key: '' @ e)"
      using e by simp
    ultimately show ?thesis by blast
  qed
  with t show ?thesis by blast
qed

text \<open>The target refuses the first upload: the run ends there.\<close>

theorem install_only_after_both_uploads_witness:
  "GenerateDynamicCredential env_upload_fails role_db ''postgres'' ''10.0.0.5'' w0 =
     (Inl ''error uploading public key: connection refused'',
      \<lparr>kv = [(''keys/hostkey'', ''HOSTKEY'')],
       trace = [(StorageGet ''keys/hostkey'', None), (RSAGen 2048, None), (UUIDGen ''u'', None),
                (ScpUpload ''admin'' ''10.0.0.5'' 22 ''HOSTKEY'' ''salted-u'' ''ssh-rsa AAAA'',
                 Some ''connection refused'')]\<rparr>)"
proof -
  have run: "GenerateDynamicCredential env_upload_fails role_db ''postgres'' ''10.0.0.5'' w0 =
     (Inl ''error uploading public key: connection refused'',
      \<lparr>kv = [(''keys/hostkey'', ''HOSTKEY'')],
       trace = [(StorageGet ''keys/hostkey'', None), (RSAGen 2048, None), (UUIDGen ''u'', None),
                (ScpUpload ''admin'' ''10.0.0.5'' 22 ''HOSTKEY'' ''salted-u'' ''ssh-rsa AAAA'',
                 Some ''connection refused'')]\<rparr>)"
    by code_simp
  show ?thesis using install_only_after_both_uploads[OF run] run by simp
qed

text \<open>A run in which every step succeeds.\<close>

lemma dynamic_success_run:
  "GenerateDynamicCredential demo_env role_db ''postgres'' ''10.0.0.5'' w0 =
     (Inr (''ssh-rsa AAAA'', ''PRIVATE KEY''),
      \<lparr>kv = [(''keys/hostkey'', ''HOSTKEY'')],
       trace = [(StorageGet ''keys/hostkey'', None), (RSAGen 2048, None), (UUIDGen ''u'', None),
                (ScpUpload ''admin'' ''10.0.0.5'' 22 ''HOSTKEY'' ''salted-u'' ''ssh-rsa AAAA'', None),
                (ScpUpload ''admin'' ''10.0.0.5'' 22 ''HOSTKEY'' ''salted-u.sh'' ''#!/bin/sh'', None),
                (InstallKey ''admin'' ''salted-u'' ''postgres'' ''10.0.0.5'' 22 ''HOSTKEY'' True,
                 None)]\<rparr>)"
  by code_simp

text \<open>
  C10. \<^verbatim>\<open>GenerateDynamicCredential\<close> never writes to the storage: whatever the result,
  the storage is as before, no call is a \<^verbatim>\<open>Put\<close>, and the only storage call is the
  read of the host key under \<^verbatim>\<open>keys/\<close>. The salted identifier it draws is used as a
  file name only.
\<close>

theorem dynamic_path_never_writes:
  assumes "GenerateDynamicCredential E role u ip w = (r, w')"
  shows "kv w' = kv w \<and>
         (\<exists>evs. trace w' = trace w @ evs \<and>
            list_all (\<lambda>c. \<not> is_put (fst c)) evs \<and>
            filter is_storage (map fst evs) = [StorageGet (''keys/'' @ KeyName role)])"
proof -
  from GenerateDynamicCredential_cases[OF assms] obtain evs where
    k: "kv w' = kv w" and t: "trace w' = trace w @ evs" and
    c: "(\<exists>e x. evs = [(StorageGet (''keys/'' @ KeyName role), x)] \<and> r = Inl e) \<or>
       (\<exists>e. evs = [(StorageGet (''keys/'' @ KeyName role), None),
                   (RSAGen (KeyBits role), Some e)]) \<or>
       (\<exists>hk pub uid x y z. 
          evs = [(StorageGet (''keys/'' @ KeyName role), None),
                      (RSAGen (KeyBits role), None), (UUIDGen uid, None),
                      (ScpUpload (AdminUser role) ip (Port role) hk (salt_SaltID E uid) pub, x)] \<or>
          evs = [(StorageGet (''keys/'' @ KeyName role), None),
                      (RSAGen (KeyBits role), None), (UUIDGen uid, None),
                      (ScpUpload (AdminUser role) ip (Port role) hk (salt_SaltID E uid) pub, None),
                      (ScpUpload (AdminUser role) ip (Port role) hk (salt_SaltID E uid @ ''.sh'')
                         (InstallScript role), y)] \<or>
          evs = [(StorageGet (''keys/'' @ KeyName role), None),
                      (RSAGen (KeyBits role), None), (UUIDGen uid, None),
                      (ScpUpload (AdminUser role) ip (Port role) hk (salt_SaltID E uid) pub, None),
                      (ScpUpload (AdminUser role) ip (Port role) hk (salt_SaltID E uid @ ''.sh'')
                         (InstallScript role), None),
                      (InstallKey (AdminUser role) (salt_SaltID E uid) u ip (Port role) hk True, z)])"
    by blast
  from c have "list_all (\<lambda>c. \<not> is_put (fst c)) evs \<and>
            filter is_storage (map fst evs) = [StorageGet (''keys/'' @ KeyName role)]"
    by (elim disjE exE conjE) simp_all
  with k t show ?thesis by blast
qed

text \<open>
  A run that fails for want of the host key leaves the entry under \<^verbatim>\<open>otp/\<close> alone,
  and a run that succeeds leaves the storage with the host key alone.
\<close>

theorem dynamic_path_never_writes_witness:
  "GenerateDynamicCredential demo_env role_db ''postgres'' ''10.0.0.5'' w_taken =
     (Inl (''key '' @ quote @ ''hostkey'' @ quote @ '' not found%!(EXTRA <nil>)''),
      \<lparr>kv = [(''otp/salted-u'', ''{username:root,ip:10.0.0.9}'')],
       trace = [(StorageGet ''keys/hostkey'', None)]\<rparr>) \<and>
   kv w_taken = [(''otp/salted-u'', ''{username:root,ip:10.0.0.9}'')] \<and>
   snd (GenerateDynamicCredential demo_env role_db ''postgres'' ''10.0.0.5'' w0) =
     \<lparr>kv = [(''keys/hostkey'', ''HOSTKEY'')],
      trace = [(StorageGet ''keys/hostkey'', None), (RSAGen 2048, None), (UUIDGen ''u'', None),
               (ScpUpload ''admin'' ''10.0.0.5'' 22 ''HOSTKEY'' ''salted-u'' ''ssh-rsa AAAA'', None),
               (ScpUpload ''admin'' ''10.0.0.5'' 22 ''HOSTKEY'' ''salted-u.sh'' ''#!/bin/sh'', None),
               (InstallKey ''admin'' ''salted-u'' ''postgres'' ''10.0.0.5'' 22 ''HOSTKEY'' True,
                None)]\<rparr> \<and>
   kv w0 = [(''keys/hostkey'', ''HOSTKEY'')]"
proof -
  have run: "GenerateDynamicCredential demo_env role_db ''postgres'' ''10.0.0.5'' w_taken =
     (Inl (''key '' @ quote @ ''hostkey'' @ quote @ '' not found%!(EXTRA <nil>)''),
      \<lparr>kv = [(''otp/salted-u'', ''{username:root,ip:10.0.0.9}'')],
       trace = [(StorageGet ''keys/hostkey'', None)]\<rparr>)"
    by code_simp
  show ?thesis
    using dynamic_path_never_writes[OF run] dynamic_path_never_writes[OF dynamic_success_run]
      run dynamic_success_run
    by simp
qed

section \<open>Issued secrets\<close>

text \<open>
  A secret is returned only when the first part of the handler went through to
  \<^verbatim>\<open>result\<close>; the response is then \<^verbatim>\<open>result\<close> with the two lease fields set after
  the lookup.
\<close>

lemma pathCredsCreateWrite_success:
  assumes "pathCredsCreateWrite E d w = Some (Inr (SecretResponse data s), w')"
  shows "\<exists>result w2. issue_result E d w = Some (Continue result, w2) \<and>
           data = fst result \<and>
           s = (snd result)\<lparr>SecretLease := (case fst (lease_of E w2) of
                                              Some l \<Rightarrow> Lease l | None \<Rightarrow> 10 * time_Minute),
                            LeaseGracePeriod := (case fst (lease_of E w2) of
                                              Some l \<Rightarrow> LeaseMax l | None \<Rightarrow> 2 * time_Minute)\<rparr> \<and>
           w' = record_call LeaseLookup (snd (lease_of E w2)) w2"
proof (cases "issue_result E d w")
  case None
  with assms show ?thesis by (simp add: pathCredsCreateWrite_def)
next
  case (Some pw)
  obtain p w1 where pw: "pw = (p, w1)" by (cases pw)
  show ?thesis
  proof (cases p)
    case (Return r)
    with assms Some pw have "r = Inr (SecretResponse data s)"
      by (simp add: pathCredsCreateWrite_def)
    with issue_result_Return[of E d w r w1] Some pw Return show ?thesis by auto
  next
    case (Continue result)
    with assms Some pw have "apply_lease E result w1 = (Inr (SecretResponse data s), w')"
      by (simp add: pathCredsCreateWrite_def)
    then show ?thesis using Some pw Continue by (simp add: apply_lease_result)
  qed
qed

text \<open>
  C3. For every successful issuance, the lease of the secret is decided by the lease
  lookup made once the credential exists. When the lookup yields a policy, the secret
  carries the policy's duration as lease duration and the policy's maximum as grace
  period. When it yields no policy, with an error or without, the secret carries 10
  minutes and 2 minutes. The error of the lookup is dropped: once \<^verbatim>\<open>result\<close> is
  assigned, the handler returns the secret whatever the lookup returned.
\<close>

theorem lease_of_issued_secret:
  "(pathCredsCreateWrite E d w = Some (Inr (SecretResponse data s), w') \<longrightarrow>
      (\<exists>result w2. issue_result E d w = Some (Continue result, w2) \<and>
         w' = record_call LeaseLookup (snd (lease_of E w2)) w2 \<and>
         (case fst (lease_of E w2) of
            Some l \<Rightarrow> SecretLease s = Lease l \<and> LeaseGracePeriod s = LeaseMax l
          | None \<Rightarrow> SecretLease s = 10 * time_Minute \<and> LeaseGracePeriod s = 2 * time_Minute))) \<and>
   (issue_result E d w = Some (Continue result, w2) \<longrightarrow>
      (\<exists>s. pathCredsCreateWrite E d w =
              Some (Inr (SecretResponse (fst result) s),
                    record_call LeaseLookup (snd (lease_of E w2)) w2)))"
proof (intro conjI impI)
  assume "pathCredsCreateWrite E d w = Some (Inr (SecretResponse data s), w')"
  from pathCredsCreateWrite_success[OF this] obtain result w2 where
    "issue_result E d w = Some (Continue result, w2)"
    "s = (snd result)\<lparr>SecretLease := (case fst (lease_of E w2) of
                                              Some l \<Rightarrow> Lease l | None \<Rightarrow> 10 * time_Minute),
                            LeaseGracePeriod := (case fst (lease_of E w2) of
                                              Some l \<Rightarrow> LeaseMax l | None \<Rightarrow> 2 * time_Minute)\<rparr>"
    "w' = record_call LeaseLookup (snd (lease_of E w2)) w2"
    by blast
  then show "\<exists>result w2. issue_result E d w = Some (Continue result, w2) \<and>
         w' = record_call LeaseLookup (snd (lease_of E w2)) w2 \<and>
         (case fst (lease_of E w2) of
            Some l \<Rightarrow> SecretLease s = Lease l \<and> LeaseGracePeriod s = LeaseMax l
          | None \<Rightarrow> SecretLease s = 10 * time_Minute \<and> LeaseGracePeriod s = 2 * time_Minute)"
    by (auto split: option.splits)
next
  assume "issue_result E d w = Some (Continue result, w2)"
  then show "\<exists>s. pathCredsCreateWrite E d w =
              Some (Inr (SecretResponse (fst result) s),
                    record_call LeaseLookup (snd (lease_of E w2)) w2)"
    by (simp add: pathCredsCreateWrite_def apply_lease_result)
qed

text \<open>The lease lookup fails, and the secret is issued with the default lease.\<close>

theorem lease_of_issued_secret_witness:
  "pathCredsCreateWrite env_lease_fails \<lparr>f_role = ''web'', f_username = [], f_ip = ''10.0.0.5''\<rparr> w0 =
     Some (Inr (SecretResponse [(''key_type'', JString ''otp''), (''key'', JString ''u'')]
                  \<lparr>SecretKind = SecretOTPType, InternalData = [(''otp'', JString ''u'')],
                   SecretLease = 600000000000, LeaseGracePeriod = 120000000000\<rparr>),
           \<lparr>kv = [(''keys/hostkey'', ''HOSTKEY''),
                  (''otp/salted-u'', ''{username:deploy,ip:10.0.0.5}'')],
            trace = [(RoleLookup ''web'', None), (UUIDGen ''u'', None),
                     (StorageGet ''otp/salted-u'', None),
                     (StoragePut ''otp/salted-u'' ''{username:deploy,ip:10.0.0.5}'', None),
                     (LeaseLookup, Some ''lease storage error'')]\<rparr>) \<and>
   10 * time_Minute = 600000000000 \<and> 2 * time_Minute = 120000000000"
proof -
  have run: "pathCredsCreateWrite env_lease_fails
               \<lparr>f_role = ''web'', f_username = [], f_ip = ''10.0.0.5''\<rparr> w0 =
     Some (Inr (SecretResponse [(''key_type'', JString ''otp''), (''key'', JString ''u'')]
                  \<lparr>SecretKind = SecretOTPType, InternalData = [(''otp'', JString ''u'')],
                   SecretLease = 600000000000, LeaseGracePeriod = 120000000000\<rparr>),
           \<lparr>kv = [(''keys/hostkey'', ''HOSTKEY''),
                  (''otp/salted-u'', ''{username:deploy,ip:10.0.0.5}'')],
            trace = [(RoleLookup ''web'', None), (UUIDGen ''u'', None),
                     (StorageGet ''otp/salted-u'', None),
                     (StoragePut ''otp/salted-u'' ''{username:deploy,ip:10.0.0.5}'', None),
                     (LeaseLookup, Some ''lease storage error'')]\<rparr>)"
    by code_simp
  show ?thesis
    using lease_of_issued_secret[THEN conjunct1, THEN mp, OF run] run
    by (simp add: time_Minute_def)
qed

text \<open>With a policy of 30 and 60 minutes the secret carries those.\<close>

lemma lease_policy_run:
  "pathCredsCreateWrite env_lease_set \<lparr>f_role = ''web'', f_username = [], f_ip = ''10.0.0.5''\<rparr> w0 =
     Some (Inr (SecretResponse [(''key_type'', JString ''otp''), (''key'', JString ''u'')]
                  \<lparr>SecretKind = SecretOTPType, InternalData = [(''otp'', JString ''u'')],
                   SecretLease = 1800000000000, LeaseGracePeriod = 3600000000000\<rparr>),
           \<lparr>kv = [(''keys/hostkey'', ''HOSTKEY''),
                  (''otp/salted-u'', ''{username:deploy,ip:10.0.0.5}'')],
            trace = [(RoleLookup ''web'', None), (UUIDGen ''u'', None),
                     (StorageGet ''otp/salted-u'', None),
                     (StoragePut ''otp/salted-u'' ''{username:deploy,ip:10.0.0.5}'', None),
                     (LeaseLookup, None)]\<rparr>)"
  by code_simp

text \<open>
  C7. For every successful issuance the response is one of two. For a role of key type
  \<^verbatim>\<open>otp\<close>: the public data are \<^verbatim>\<open>key_type\<close> = \<^verbatim>\<open>otp\<close> and \<^verbatim>\<open>key\<close> = the OTP
  returned by \<^verbatim>\<open>GenerateOTPCredential\<close>, the internal data are \<^verbatim>\<open>otp\<close> = that OTP.
  For a role of key type \<^verbatim>\<open>dynamic\<close>: the public data are \<^verbatim>\<open>key\<close> = the generated
  private key and \<^verbatim>\<open>key_type\<close> = \<^verbatim>\<open>dynamic\<close>, the internal data are the role's admin
  user, the validated username, the validated address, the role's key name, the generated
  public key, the role's port and the role's install script.
\<close>

theorem response_data_of_issued_secret:
  assumes "pathCredsCreateWrite E d w = Some (Inr (SecretResponse data s), w')"
  shows "\<exists>role ipAddr w2.
           role_of E w (f_role d) = Inr (Some role) \<and>
           net_ParseIP E (f_ip d) = Some ipAddr \<and>
           ((KeyType role = ''otp'' \<and> SecretKind s = SecretOTPType \<and>
             (\<exists>otp. GenerateOTPCredential E
                      (if f_username d = [] then DefaultUser role else f_username d)
                      (IP_String E ipAddr) (record_call (RoleLookup (f_role d)) None w)
                      = Some (Inr otp, w2) \<and>
                    data = [(''key_type'', JString ''otp''), (''key'', JString otp)] \<and>
                    InternalData s = [(''otp'', JString otp)])) \<or>
            (KeyType role = ''dynamic'' \<and> SecretKind s = SecretDynamicKeyType \<and>
             (\<exists>pub priv. GenerateDynamicCredential E role
                      (if f_username d = [] then DefaultUser role else f_username d)
                      (IP_String E ipAddr) (record_call (RoleLookup (f_role d)) None w)
                      = (Inr (pub, priv), w2) \<and>
                    data = [(''key'', JString priv), (''key_type'', JString ''dynamic'')] \<and>
                    InternalData s =
                      [(''admin_user'', JString (AdminUser role)),
                       (''username'', JString
                          (if f_username d = [] then DefaultUser role else f_username d)),
                       (''ip'', JString (IP_String E ipAddr)),
                       (''host_key_name'', JString (KeyName role)),
                       (''dynamic_public_key'', JString pub),
                       (''port'', JInt (Port role)),
                       (''install_script'', JString (InstallScript role))])))"
proof -
  from pathCredsCreateWrite_success[OF assms] obtain result w2 where
    i: "issue_result E d w = Some (Continue result, w2)" and
    d: "data = fst result" and
    s: "SecretKind s = SecretKind (snd result)" "InternalData s = InternalData (snd result)"
    by auto
  from issue_result_Continue[OF i] d s show ?thesis
    apply (elim exE conjE)
    subgoal for role ipAddr
      apply (rule exI[of _ role], rule exI[of _ ipAddr], rule exI[of _ w2])
      apply (elim disjE)
       apply (auto simp: Secret_Response_def KeyTypeOTP_def KeyTypeDynamic_def)
      done
    done
qed

text \<open>A dynamic key for \<^verbatim>\<open>alice\<close> on role \<^verbatim>\<open>db\<close>.\<close>

theorem response_data_of_issued_secret_witness:
  "pathCredsCreateWrite demo_env \<lparr>f_role = ''db'', f_username = ''alice'', f_ip = ''10.0.0.5''\<rparr> w0 =
     Some (Inr (SecretResponse
                  [(''key'', JString ''PRIVATE KEY''), (''key_type'', JString ''dynamic'')]
                  \<lparr>SecretKind = SecretDynamicKeyType,
                   InternalData =
                     [(''admin_user'', JString ''admin''), (''username'', JString ''alice''),
                      (''ip'', JString ''10.0.0.5''), (''host_key_name'', JString ''hostkey''),
                      (''dynamic_public_key'', JString ''ssh-rsa AAAA''), (''port'', JInt 22),
                      (''install_script'', JString ''#!/bin/sh'')],
                   SecretLease = 600000000000, LeaseGracePeriod = 120000000000\<rparr>),
           \<lparr>kv = [(''keys/hostkey'', ''HOSTKEY'')],
            trace = [(RoleLookup ''db'', None), (StorageGet ''keys/hostkey'', None),
                     (RSAGen 2048, None), (UUIDGen ''u'', None),
                     (ScpUpload ''admin'' ''10.0.0.5'' 22 ''HOSTKEY'' ''salted-u'' ''ssh-rsa AAAA'', None),
                     (ScpUpload ''admin'' ''10.0.0.5'' 22 ''HOSTKEY'' ''salted-u.sh'' ''#!/bin/sh'', None),
                     (InstallKey ''admin'' ''salted-u'' ''alice'' ''10.0.0.5'' 22 ''HOSTKEY'' True, None),
                     (LeaseLookup, None)]\<rparr>) \<and>
   role_of demo_env w0 ''db'' = Inr (Some role_db) \<and> KeyType role_db = ''dynamic''"
proof -
  have run: "pathCredsCreateWrite demo_env \<lparr>f_role = ''db'', f_username = ''alice'', f_ip = ''10.0.0.5''\<rparr> w0 =
     Some (Inr (SecretResponse
                  [(''key'', JString ''PRIVATE KEY''), (''key_type'', JString ''dynamic'')]
                  \<lparr>SecretKind = SecretDynamicKeyType,
                   InternalData =
                     [(''admin_user'', JString ''admin''), (''username'', JString ''alice''),
                      (''ip'', JString ''10.0.0.5''), (''host_key_name'', JString ''hostkey''),
                      (''dynamic_public_key'', JString ''ssh-rsa AAAA''), (''port'', JInt 22),
                      (''install_script'', JString ''#!/bin/sh'')],
                   SecretLease = 600000000000, LeaseGracePeriod = 120000000000\<rparr>),
           \<lparr>kv = [(''keys/hostkey'', ''HOSTKEY'')],
            trace = [(RoleLookup ''db'', None), (StorageGet ''keys/hostkey'', None),
                     (RSAGen 2048, None), (UUIDGen ''u'', None),
                     (ScpUpload ''admin'' ''10.0.0.5'' 22 ''HOSTKEY'' ''salted-u'' ''ssh-rsa AAAA'', None),
                     (ScpUpload ''admin'' ''10.0.0.5'' 22 ''HOSTKEY'' ''salted-u.sh'' ''#!/bin/sh'', None),
                     (InstallKey ''admin'' ''salted-u'' ''alice'' ''10.0.0.5'' 22 ''HOSTKEY'' True, None),
                     (LeaseLookup, None)]\<rparr>)"
    by code_simp
  show ?thesis
    using response_data_of_issued_secret[OF run] run
    by (simp add: demo_env_def demo_roles_def role_db_def)
qed

text \<open>The OTP scenario of the specification: role \<^verbatim>\<open>web\<close>, address \<^verbatim>\<open>10.0.0.5\<close>.\<close>

lemma otp_response_run:
  "pathCredsCreateWrite demo_env \<lparr>f_role = ''web'', f_username = [], f_ip = ''10.0.0.5''\<rparr> w0 =
     Some (Inr (SecretResponse [(''key_type'', JString ''otp''), (''key'', JString ''u'')]
                  \<lparr>SecretKind = SecretOTPType, InternalData = [(''otp'', JString ''u'')],
                   SecretLease = 600000000000, LeaseGracePeriod = 120000000000\<rparr>),
           \<lparr>kv = [(''keys/hostkey'', ''HOSTKEY''),
                  (''otp/salted-u'', ''{username:deploy,ip:10.0.0.5}'')],
            trace = [(RoleLookup ''web'', None), (UUIDGen ''u'', None),
                     (StorageGet ''otp/salted-u'', None),
                     (StoragePut ''otp/salted-u'' ''{username:deploy,ip:10.0.0.5}'', None),
                     (LeaseLookup, None)]\<rparr>)"
  by code_simp

lemma probe_observations:
  "is_probe ev \<Longrightarrow> remote_ip ev = None"
  "is_probe ev \<Longrightarrow> put_value ev = None"
  by (cases ev; simp)+

text \<open>
  C9. For every successful issuance, the address used after validation is the string
  form of the parsed address (\<^verbatim>\<open>net.ParseIP\<close>, then \<^verbatim>\<open>String\<close>), not the string the
  caller gave: every remote session of the request goes to it, every entry the request
  writes is the encoding of the validated username with it, and the internal data of a
  dynamic secret carry it under \<^verbatim>\<open>ip\<close>. An OTP issuance does write an entry, and a
  dynamic issuance does upload and install.
\<close>

theorem canonical_ip_used_downstream:
  assumes "pathCredsCreateWrite E d w = Some (Inr (SecretResponse data s), w')"
  shows "\<exists>role ipAddr evs.
           role_of E w (f_role d) = Inr (Some role) \<and>
           net_ParseIP E (f_ip d) = Some ipAddr \<and>
           trace w' = trace w @ evs \<and>
           (\<forall>c\<in>set evs. \<forall>a. remote_ip (fst c) = Some a \<longrightarrow> a = IP_String E ipAddr) \<and>
           (\<forall>c\<in>set evs. \<forall>v. put_value (fst c) = Some v \<longrightarrow>
              json_Marshal E \<lparr>Username = (if f_username d = [] then DefaultUser role
                                            else f_username d),
                               IP = IP_String E ipAddr\<rparr> = Inr v) \<and>
           (SecretKind s = SecretOTPType \<longrightarrow> (\<exists>c\<in>set evs. is_put (fst c))) \<and>
           (SecretKind s = SecretDynamicKeyType \<longrightarrow>
              (\<exists>c\<in>set evs. is_upload (fst c)) \<and> (\<exists>c\<in>set evs. is_install (fst c)) \<and>
              map_of (InternalData s) ''ip'' = Some (JString (IP_String E ipAddr)))"
proof -
  from pathCredsCreateWrite_success[OF assms] obtain result w2 where
    i: "issue_result E d w = Some (Continue result, w2)" and
    s: "SecretKind s = SecretKind (snd result)" "InternalData s = InternalData (snd result)" and
    w': "w' = record_call LeaseLookup (snd (lease_of E w2)) w2"
    by auto
  let ?U = "if f_username d = [] then DefaultUser role else f_username d"
  let ?w1 = "record_call (RoleLookup (f_role d)) None w"
  from issue_result_Continue[OF i] obtain role ipAddr where
    r: "role_of E w (f_role d) = Inr (Some role)" and
    p: "net_ParseIP E (f_ip d) = Some ipAddr" and
    br: "(\<exists>otp. GenerateOTPCredential E
                      (if f_username d = [] then DefaultUser role else f_username d)
                      (IP_String E ipAddr) ?w1 = Some (Inr otp, w2) \<and>
                    result = Secret_Response E SecretOTPType
                               [(''key_type'', JString (KeyType role)), (''key'', JString otp)]
                               [(''otp'', JString otp)]) \<or>
         (\<exists>pub priv. GenerateDynamicCredential E role
                      (if f_username d = [] then DefaultUser role else f_username d)
                      (IP_String E ipAddr) ?w1 = (Inr (pub, priv), w2) \<and>
                    result = Secret_Response E SecretDynamicKeyType
                               [(''key'', JString priv), (''key_type'', JString (KeyType role))]
                               [(''admin_user'', JString (AdminUser role)),
                                (''username'', JString
                                   (if f_username d = [] then DefaultUser role else f_username d)),
                                (''ip'', JString (IP_String E ipAddr)),
                                (''host_key_name'', JString (KeyName role)),
                                (''dynamic_public_key'', JString pub),
                                (''port'', JInt (Port role)),
                                (''install_script'', JString (InstallScript role))])"
    by blast
  let ?ip = "IP_String E ipAddr"
  let ?user = "if f_username d = [] then DefaultUser role else f_username d"
  from br show ?thesis
  proof (elim disjE exE conjE)
    fix otp
    assume g: "GenerateOTPCredential E ?user ?ip ?w1 = Some (Inr otp, w2)"
      and res: "result = Secret_Response E SecretOTPType
                               [(''key_type'', JString (KeyType role)), (''key'', JString otp)]
                               [(''otp'', JString otp)]"
    from GenerateOTPCredential_success[OF g] obtain bytes pre x where
      j: "json_Marshal E \<lparr>Username = ?user, IP = ?ip\<rparr> = Inr bytes" and
      t: "trace w2 = trace ?w1 @ pre @
              [(StorageGet (''otp/'' @ salt_SaltID E otp), x),
               (StoragePut (''otp/'' @ salt_SaltID E otp) bytes, None)]" and
      pr: "list_all (\<lambda>c. is_probe (fst c)) pre"
      by blast
    let ?evs = "(RoleLookup (f_role d), None) # pre @
              [(StorageGet (''otp/'' @ salt_SaltID E otp), x),
               (StoragePut (''otp/'' @ salt_SaltID E otp) bytes, None),
               (LeaseLookup, snd (lease_of E w2))]"
    have T: "trace w' = trace w @ ?evs" using w' t by (simp add: record_call_def)
    have A: "\<forall>c\<in>set ?evs. \<forall>a. remote_ip (fst c) = Some a \<longrightarrow> a = ?ip"
      using pr by (auto simp: list_all_iff probe_observations)
    have B: "\<forall>c\<in>set ?evs. \<forall>v. put_value (fst c) = Some v \<longrightarrow>
               json_Marshal E \<lparr>Username = ?user, IP = ?ip\<rparr> = Inr v"
      using pr j by (auto simp: list_all_iff probe_observations)
    have C: "\<exists>c\<in>set ?evs. is_put (fst c)" by simp
    have D: "SecretKind s = SecretOTPType" using s res by (simp add: Secret_Response_def)
    then have N: "SecretKind s \<noteq> SecretDynamicKeyType" by simp
    show ?thesis
      apply (rule exI[of _ role], rule exI[of _ ipAddr], rule exI[of _ ?evs])
      using r p T A B C N by blast
  next
    fix pub priv
    assume g: "GenerateDynamicCredential E role ?user ?ip ?w1 = (Inr (pub, priv), w2)"
      and res: "result = Secret_Response E SecretDynamicKeyType
                               [(''key'', JString priv), (''key_type'', JString (KeyType role))]
                               [(''admin_user'', JString (AdminUser role)),
                                (''username'', JString
                                   (if f_username d = [] then DefaultUser role else f_username d)),
                                (''ip'', JString (IP_String E ipAddr)),
                                (''host_key_name'', JString (KeyName role)),
                                (''dynamic_public_key'', JString pub),
                                (''port'', JInt (Port role)),
                                (''install_script'', JString (InstallScript role))]"
    from GenerateDynamicCredential_cases[OF g] obtain hk uid pub' where
      t: "trace w2 = trace ?w1 @ [(StorageGet (''keys/'' @ KeyName role), None),
                    (RSAGen (KeyBits role), None), (UUIDGen uid, None),
                    (ScpUpload (AdminUser role) ?ip (Port role) hk (salt_SaltID E uid) pub', None),
                    (ScpUpload (AdminUser role) ?ip (Port role) hk (salt_SaltID E uid @ ''.sh'')
                       (InstallScript role), None),
                    (InstallKey (AdminUser role) (salt_SaltID E uid) ?user ?ip (Port role) hk True, None)]"
      by (auto split: option.splits)
    let ?evs = "[(RoleLookup (f_role d), None), (StorageGet (''keys/'' @ KeyName role), None),
                    (RSAGen (KeyBits role), None), (UUIDGen uid, None),
                    (ScpUpload (AdminUser role) ?ip (Port role) hk (salt_SaltID E uid) pub', None),
                    (ScpUpload (AdminUser role) ?ip (Port role) hk (salt_SaltID E uid @ ''.sh'')
                       (InstallScript role), None),
                    (InstallKey (AdminUser role) (salt_SaltID E uid) ?user ?ip (Port role) hk True, None),
                    (LeaseLookup, snd (lease_of E w2))]"
    have T: "trace w' = trace w @ ?evs" using w' t by (simp add: record_call_def)
    have A: "\<forall>c\<in>set ?evs. \<forall>a. remote_ip (fst c) = Some a \<longrightarrow> a = ?ip" by simp
    have B: "\<forall>c\<in>set ?evs. \<forall>v. put_value (fst c) = Some v \<longrightarrow>
               json_Marshal E \<lparr>Username = ?user, IP = ?ip\<rparr> = Inr v" by simp
    have C: "(\<exists>c\<in>set ?evs. is_upload (fst c)) \<and> (\<exists>c\<in>set ?evs. is_install (fst c))" by simp
    have D: "SecretKind s = SecretDynamicKeyType"
      "map_of (InternalData s) ''ip'' = Some (JString ?ip)"
      using s res by (simp_all add: Secret_Response_def)
    then have N: "SecretKind s \<noteq> SecretOTPType" by simp
    show ?thesis
      apply (rule exI[of _ role], rule exI[of _ ipAddr], rule exI[of _ ?evs])
      using r p T A B C D(2) N by blast
  qed
qed

text \<open>
  The caller writes the address as an IPv4-mapped IPv6 address; the entry holds the
  dotted form, which differs from what the caller wrote.
\<close>

theorem canonical_ip_used_downstream_witness:
  "pathCredsCreateWrite demo_env
       \<lparr>f_role = ''web'', f_username = ''bob'', f_ip = ''::ffff:10.0.0.5''\<rparr> w0 =
     Some (Inr (SecretResponse [(''key_type'', JString ''otp''), (''key'', JString ''u'')]
                  \<lparr>SecretKind = SecretOTPType, InternalData = [(''otp'', JString ''u'')],
                   SecretLease = 600000000000, LeaseGracePeriod = 120000000000\<rparr>),
           \<lparr>kv = [(''keys/hostkey'', ''HOSTKEY''),
                  (''otp/salted-u'', ''{username:bob,ip:10.0.0.5}'')],
            trace = [(RoleLookup ''web'', None), (UUIDGen ''u'', None),
                     (StorageGet ''otp/salted-u'', None),
                     (StoragePut ''otp/salted-u'' ''{username:bob,ip:10.0.0.5}'', None),
                     (LeaseLookup, None)]\<rparr>) \<and>
   net_ParseIP demo_env ''::ffff:10.0.0.5'' = Some [10, 0, 0, 5] \<and>
   IP_String demo_env [10, 0, 0, 5] = ''10.0.0.5'' \<and>
   ''10.0.0.5'' \<noteq> ''::ffff:10.0.0.5''"
proof -
  have run: "pathCredsCreateWrite demo_env
       \<lparr>f_role = ''web'', f_username = ''bob'', f_ip = ''::ffff:10.0.0.5''\<rparr> w0 =
     Some (Inr (SecretResponse [(''key_type'', JString ''otp''), (''key'', JString ''u'')]
                  \<lparr>SecretKind = SecretOTPType, InternalData = [(''otp'', JString ''u'')],
                   SecretLease = 600000000000, LeaseGracePeriod = 120000000000\<rparr>),
           \<lparr>kv = [(''keys/hostkey'', ''HOSTKEY''),
                  (''otp/salted-u'', ''{username:bob,ip:10.0.0.5}'')],
            trace = [(RoleLookup ''web'', None), (UUIDGen ''u'', None),
                     (StorageGet ''otp/salted-u'', None),
                     (StoragePut ''otp/salted-u'' ''{username:bob,ip:10.0.0.5}'', None),
                     (LeaseLookup, None)]\<rparr>)"
    by code_simp
  show ?thesis
    using canonical_ip_used_downstream[OF run] run
    by (simp add: demo_env_def demo_ParseIP_def demo_String_def)
qed

text \<open>The same request for the dynamic role: the uploads and the install go to the dotted form.\<close>

lemma canonical_ip_dynamic_run:
  "pathCredsCreateWrite demo_env
       \<lparr>f_role = ''db'', f_username = [], f_ip = ''::ffff:10.0.0.5''\<rparr> w0 =
     Some (Inr (SecretResponse
                  [(''key'', JString ''PRIVATE KEY''), (''key_type'', JString ''dynamic'')]
                  \<lparr>SecretKind = SecretDynamicKeyType,
                   InternalData =
                     [(''admin_user'', JString ''admin''), (''username'', JString ''postgres''),
                      (''ip'', JString ''10.0.0.5''), (''host_key_name'', JString ''hostkey''),
                      (''dynamic_public_key'', JString ''ssh-rsa AAAA''), (''port'', JInt 22),
                      (''install_script'', JString ''#!/bin/sh'')],
                   SecretLease = 600000000000, LeaseGracePeriod = 120000000000\<rparr>),
           \<lparr>kv = [(''keys/hostkey'', ''HOSTKEY'')],
            trace = [(RoleLookup ''db'', None), (StorageGet ''keys/hostkey'', None),
                     (RSAGen 2048, None), (UUIDGen ''u'', None),
                     (ScpUpload ''admin'' ''10.0.0.5'' 22 ''HOSTKEY'' ''salted-u'' ''ssh-rsa AAAA'', None),
                     (ScpUpload ''admin'' ''10.0.0.5'' 22 ''HOSTKEY'' ''salted-u.sh'' ''#!/bin/sh'', None),
                     (InstallKey ''admin'' ''salted-u'' ''postgres'' ''10.0.0.5'' 22 ''HOSTKEY'' True, None),
                     (LeaseLookup, None)]\<rparr>)"
  by code_simp

end
